theory Spec2Isabelle
  imports Complex_Main
begin

section \<open>Scene nodes, the widget and the host platform\<close>

text \<open>
  The module \<^verbatim>\<open>SingleSliceSegmentation.py\<close> is a scripted plugin: its widget callbacks
  and its logic methods read and write nodes of the host's scene. A node reference is an
  address into a store of nodes, so that two selectors holding the same node share its
  state, as Python object references do.
\<close>

type_synonym node_id = nat
type_synonym image_data = "int list"

text \<open>A data node kept in a sequence: the copy of a proxy node taken when it was stored.\<close>

record data_node =
  dn_attribute :: "string \<rightharpoonup> string"
  dn_segments :: "image_data list"
  dn_imageData :: image_data

text \<open>
  What the plugin reads and writes of a scene node. \<open>attribute\<close> is the table behind
  \<^verbatim>\<open>GetAttribute\<close>/\<^verbatim>\<open>SetAttribute\<close>; \<open>segments\<close> holds the binary labelmap of every
  segment of a segmentation node; \<open>imageData\<close> the pixels of a volume node;
  \<open>selectedItemNumber\<close> and \<open>proxySequences\<close> (proxy node to sequence node) belong to a
  sequence browser node; \<open>indexEntries\<close> (index value, data node) to a sequence node.
\<close>

record node =
  className :: string
  nodeName :: string
  attribute :: "string \<rightharpoonup> string"
  segments :: "image_data list"
  imageData :: image_data
  selectedItemNumber :: int
  proxySequences :: "(node_id \<times> node_id) list"
  indexEntries :: "(string \<times> data_node) list"

record scene =
  nodes :: "node_id \<Rightarrow> node"
  sceneNodes :: "node_id list"

record ui =
  inputSequenceBrowserSelector :: "node_id option"
  inputVolumeSelector :: "node_id option"
  inputSegmentationSelector :: "node_id option"
  segmentationBrowserSelector :: "node_id option"
  skipImagesSpinBox :: int
  skipImagesSpinBoxMinimum :: int
  skipImagesSpinBoxMaximum :: int
  convertValueSpinBox :: int
  outputDirectoryButton :: string
  filenamePrefixEdit :: string
  exportTransformCheckBox :: bool

datatype log_level = DEBUG | WARNING | ERROR

text \<open>
  The state a callback runs in: the scene, the widget's controls and members, the
  sequences toolbar's active browser, the Red slice composite node's foreground opacity,
  and what the plugin has emitted so far (log records, message boxes, PNG files written
  as path and pixels).
\<close>

record world =
  mrmlScene :: scene
  widgets :: ui
  lastForegroundOpacity :: real
  foregroundOpacity :: real
  activeBrowserNode :: "node_id option"
  logged :: "(log_level \<times> string) list"
  messageBoxes :: "string list"
  pngFiles :: "(string \<times> image_data) list"

datatype py_error = AttributeError | NameError | ValueError | TypeError

text \<open>
  A call either returns or raises; an exception leaves behind the state reached when it
  was raised.
\<close>

datatype outcome = Returned world | Raised py_error world

text \<open>
  Operations whose code is not part of this repository: the host platform's sequence
  browser, sequences logic, segmentations logic, image cast and PNG writer, and the
  interpreter's \<^verbatim>\<open>int\<close>, \<^verbatim>\<open>os.path\<close> and array arithmetic. They are parameters of
  the model; every theorem holds for whatever the host does. A host call that may raise
  returns an option, \<open>None\<close> for the exception. \<open>ProxyNodesReloaded\<close> gives the proxy nodes
  that the browsers reload, each with the stored data node it is reloaded from, when a
  sequence node has been modified. The last three fields are the logic's NumPy and
  volume conversion methods, which no property below looks into.
\<close>

record host =
  py_int :: "string \<Rightarrow> int option"
  os_path_exists :: "string \<Rightarrow> bool"
  os_path_join :: "string \<Rightarrow> string \<Rightarrow> string"
  AddNewNodeByClass :: "scene \<Rightarrow> string \<Rightarrow> scene \<times> node_id"
  GetNumberOfItems :: "scene \<Rightarrow> node_id \<Rightarrow> nat"
  SelectFirstItem :: "scene \<Rightarrow> node_id \<Rightarrow> scene"
  SelectNextItem :: "scene \<Rightarrow> node_id \<Rightarrow> int \<Rightarrow> scene \<times> int"
  SetSelectedItemNumber :: "scene \<Rightarrow> node_id \<Rightarrow> int \<Rightarrow> scene option"
  SaveProxyNodesState :: "scene \<Rightarrow> node_id \<Rightarrow> scene"
  UpdateAllProxyNodes :: "scene \<Rightarrow> scene"
  ExportVisibleSegmentsToLabelmapNode :: "scene \<Rightarrow> node_id \<Rightarrow> node_id \<Rightarrow> node_id \<Rightarrow> scene"
  GetInsertPosition :: "(string \<times> data_node) list \<Rightarrow> string \<Rightarrow> nat"
  ProxyNodesReloaded :: "scene \<Rightarrow> node_id \<Rightarrow> (node_id \<times> data_node) list"
  array_imul :: "image_data \<Rightarrow> int \<Rightarrow> image_data"
  vtkImageCast :: "image_data \<Rightarrow> image_data"
  exportNumpySlice ::
    "world \<Rightarrow> node_id \<Rightarrow> node_id option \<Rightarrow> node_id \<Rightarrow> node_id \<Rightarrow> string \<Rightarrow> string \<Rightarrow> outcome"
  exportTransformToWorldSequence ::
    "world \<Rightarrow> node_id \<Rightarrow> node_id option \<Rightarrow> node_id \<Rightarrow> node_id \<Rightarrow> string \<Rightarrow> string \<Rightarrow> outcome"
  convertSegmentationSequenceToVolumeSequence ::
    "world \<Rightarrow> node_id \<Rightarrow> node_id \<Rightarrow> node_id \<Rightarrow> int \<Rightarrow> outcome"

subsection \<open>Attribute names\<close>

definition ATTRIBUTE_PREFIX :: string where
  "ATTRIBUTE_PREFIX = ''SingleSliceSegmentation_''"

definition INPUT_BROWSER :: string where
  "INPUT_BROWSER = ATTRIBUTE_PREFIX @ ''InputBrowser''"

definition INPUT_SKIP_NUMBER :: string where
  "INPUT_SKIP_NUMBER = ATTRIBUTE_PREFIX @ ''InputSkipNumber''"

definition SEGMENTATION :: string where
  "SEGMENTATION = ATTRIBUTE_PREFIX @ ''Segmentation''"

definition OUTPUT_BROWSER :: string where
  "OUTPUT_BROWSER = ATTRIBUTE_PREFIX @ ''OutputBrowser''"

definition ORIGINAL_IMAGE_INDEX :: string where
  "ORIGINAL_IMAGE_INDEX = ATTRIBUTE_PREFIX @ ''OriginalImageIndex''"

subsection \<open>Node accessors\<close>

definition GetAttribute :: "scene \<Rightarrow> node_id \<Rightarrow> string \<Rightarrow> string option" where
  "GetAttribute sc n k = attribute (nodes sc n) k"

definition SetAttribute :: "node_id \<Rightarrow> string \<Rightarrow> string \<Rightarrow> scene \<Rightarrow> scene" where
  "SetAttribute n k v sc =
     sc\<lparr>nodes := (nodes sc)(n := (nodes sc n)\<lparr>attribute := (attribute (nodes sc n))(k \<mapsto> v)\<rparr>)\<rparr>"

definition GetSelectedItemNumber :: "scene \<Rightarrow> node_id \<Rightarrow> int" where
  "GetSelectedItemNumber sc b = selectedItemNumber (nodes sc b)"

definition getNodesByClass :: "scene \<Rightarrow> string \<Rightarrow> node_id list" where
  "getNodesByClass sc c = filter (\<lambda>n. className (nodes sc n) = c) (sceneNodes sc)"

definition logging_at :: "log_level \<Rightarrow> string \<Rightarrow> world \<Rightarrow> world" where
  "logging_at lv msg w = w\<lparr>logged := logged w @ [(lv, msg)]\<rparr>"

definition on_scene :: "(scene \<Rightarrow> scene) \<Rightarrow> world \<Rightarrow> world" where
  "on_scene f w = w\<lparr>mrmlScene := f (mrmlScene w)\<rparr>"

subsection \<open>Decimal rendering: \<^verbatim>\<open>str\<close> of an int and the \<^verbatim>\<open>%04d\<close> format\<close>

definition digit_char :: "nat \<Rightarrow> char" where
  "digit_char d = ''0123456789'' ! (d mod 10)"

fun str_nat :: "nat \<Rightarrow> string" where
  "str_nat n = (if n < 10 then [digit_char n] else str_nat (n div 10) @ [digit_char n])"

declare str_nat.simps [simp del]

definition str_int :: "int \<Rightarrow> string" where
  "str_int i = (if i < 0 then CHR ''-'' # str_nat (nat (- i)) else str_nat (nat i))"

definition format_04d :: "nat \<Rightarrow> string" where
  "format_04d i = replicate (4 - length (str_nat i)) CHR ''0'' @ str_nat i"

section \<open>Sequence nodes\<close>

text \<open>
  The part of the host's sequence node and sequence browser that \<^verbatim>\<open>captureSlice\<close> relies
  on. \<^verbatim>\<open>GetSequenceNode\<close> gives the sequence a browser keeps for a proxy node, and
  nothing for a null proxy. \<^verbatim>\<open>GetNthIndexValue\<close> is the empty string out of range.
  \<^verbatim>\<open>SetDataNodeAtValue\<close> stores a copy of the node at the item that carries the index
  value, and makes a new item (where the host's ordering of index values puts it) when
  no item carries it; the browsers that observe the sequence then reload their proxy
  nodes, as the host says. Index values are compared as the strings the sequence stores.
\<close>

definition GetSequenceNode :: "scene \<Rightarrow> node_id \<Rightarrow> node_id option \<Rightarrow> node_id option" where
  "GetSequenceNode sc browser proxyNode =
     (case proxyNode of None \<Rightarrow> None | Some p \<Rightarrow> map_of (proxySequences (nodes sc browser)) p)"

definition GetNthIndexValue :: "scene \<Rightarrow> node_id \<Rightarrow> nat \<Rightarrow> string" where
  "GetNthIndexValue sc s i =
     (let es = indexEntries (nodes sc s) in if i < length es then fst (es ! i) else [])"

definition copy_of_node :: "node \<Rightarrow> data_node" where
  "copy_of_node nd =
     \<lparr>dn_attribute = attribute nd, dn_segments = segments nd, dn_imageData = imageData nd\<rparr>"

fun GetItemNumberFromIndexValue :: "(string \<times> data_node) list \<Rightarrow> string \<Rightarrow> nat option" where
  "GetItemNumberFromIndexValue [] v = None"
| "GetItemNumberFromIndexValue (e # es) v =
     (if fst e = v then Some 0 else map_option Suc (GetItemNumberFromIndexValue es v))"

text \<open>A proxy node takes over the attributes and the content of a stored data node.\<close>

definition load_data_node :: "node_id \<times> data_node \<Rightarrow> scene \<Rightarrow> scene" where
  "load_data_node pd sc =
     sc\<lparr>nodes := (nodes sc)(fst pd := (nodes sc (fst pd))
        \<lparr>attribute := dn_attribute (snd pd),
         segments := dn_segments (snd pd),
         imageData := dn_imageData (snd pd)\<rparr>)\<rparr>"

definition SetDataNodeAtValue :: "host \<Rightarrow> node_id \<Rightarrow> node_id \<Rightarrow> string \<Rightarrow> scene \<Rightarrow> scene" where
  "SetDataNodeAtValue h s n v sc =
     (let es = indexEntries (nodes sc s);
          d = copy_of_node (nodes sc n);
          es' = (case GetItemNumberFromIndexValue es v of
                   Some j \<Rightarrow> es[j := (v, d)]
                 | None \<Rightarrow> (let p = GetInsertPosition h es v in take p es @ [(v, d)] @ drop p es));
          stored = sc\<lparr>nodes := (nodes sc)(s := (nodes sc s)\<lparr>indexEntries := es'\<rparr>)\<rparr>
      in fold load_data_node (ProxyNodesReloaded h stored s) stored)"

section \<open>Logic\<close>

subsection \<open>captureSlice\<close>

text \<open>
  The search loop of \<^verbatim>\<open>captureSlice\<close>: the first position \<open>i\<close> whose stored data node has
  the same \<open>ORIGINAL_IMAGE_INDEX\<close> attribute value as the current segmentation. Python's
  \<^verbatim>\<open>==\<close> compares the two results of \<^verbatim>\<open>GetAttribute\<close>, each a string or \<^verbatim>\<open>None\<close>.
\<close>

fun find_recorded :: "string option \<Rightarrow> (string \<times> data_node) list \<Rightarrow> nat \<Rightarrow> nat option" where
  "find_recorded originalIndex [] i = None"
| "find_recorded originalIndex (e # es) i =
     (let savedIndex = dn_attribute (snd e) ORIGINAL_IMAGE_INDEX in
      if originalIndex = savedIndex then Some i else find_recorded originalIndex es (Suc i))"

text \<open>
  \<^verbatim>\<open>try: recordedOriginalIndex = int(recordedOriginalIndex)\<close> keeps a found position and
  turns the \<^verbatim>\<open>TypeError\<close> of \<^verbatim>\<open>int(None)\<close> back into \<^verbatim>\<open>None\<close>, so the option is unchanged.
  The segmentation argument is never null: the only caller checks it.
\<close>

definition captureSlice :: "host \<Rightarrow> world \<Rightarrow> node_id \<Rightarrow> node_id \<Rightarrow> node_id option \<Rightarrow> outcome" where
  "captureSlice h w segmentationSequenceBrowser selectedSegmentation inputImage =
     (let sc = mrmlScene w in
      case GetSequenceNode sc segmentationSequenceBrowser inputImage of
        None \<Rightarrow>
          (case inputImage of
             None \<Rightarrow> Raised AttributeError w
           | Some img \<Rightarrow>
               Returned (logging_at ERROR
                 (''Sequence not found for input image: '' @ nodeName (nodes sc img)) w))
      | Some inputImageSequenceNode \<Rightarrow>
          (case GetSequenceNode sc segmentationSequenceBrowser (Some selectedSegmentation) of
             None \<Rightarrow>
               Returned (logging_at ERROR
                 (''Sequence not found for segmentation: '' @ nodeName (nodes sc selectedSegmentation)) w)
           | Some segmentationSequenceNode \<Rightarrow>
               (let originalIndex = GetAttribute sc selectedSegmentation ORIGINAL_IMAGE_INDEX;
                    recordedOriginalIndex =
                      find_recorded originalIndex (indexEntries (nodes sc segmentationSequenceNode)) 0
                in case recordedOriginalIndex of
                     None \<Rightarrow>
                       Returned (on_scene (\<lambda>s. SaveProxyNodesState h s segmentationSequenceBrowser) w)
                   | Some i \<Rightarrow>
                       (let recordedIndexValue = GetNthIndexValue sc inputImageSequenceNode i in
                        Returned (on_scene
                          (SetDataNodeAtValue h segmentationSequenceNode selectedSegmentation
                             recordedIndexValue) w)))))"

subsection \<open>eraseCurrentSegmentation\<close>

text \<open>Every segment's binary labelmap is filled with 0 over its whole extent.\<close>

definition eraseCurrentSegmentation :: "node_id \<Rightarrow> scene \<Rightarrow> scene" where
  "eraseCurrentSegmentation selectedSegmentation sc =
     sc\<lparr>nodes := (nodes sc)(selectedSegmentation := (nodes sc selectedSegmentation)
        \<lparr>segments := map (\<lambda>labelMapRep. map (\<lambda>_. 0) labelMapRep)
                        (segments (nodes sc selectedSegmentation))\<rparr>)\<rparr>"

subsection \<open>exportPngSequence\<close>

text \<open>
  The guarded call \<^verbatim>\<open>selectedImageSequence.SetSelectedItemNumber(int(originalIndex))\<close>:
  a null browser, a string \<^verbatim>\<open>int\<close> rejects and a host call that raises all end in the
  bare \<^verbatim>\<open>except\<close>, here \<open>None\<close>.
\<close>

definition try_SetSelectedItemNumber :: "host \<Rightarrow> scene \<Rightarrow> node_id option \<Rightarrow> string \<Rightarrow> scene option" where
  "try_SetSelectedItemNumber h sc selectedImageSequence originalIndex =
     (case selectedImageSequence of
        None \<Rightarrow> None
      | Some b \<Rightarrow>
          (case py_int h originalIndex of
             None \<Rightarrow> None
           | Some k \<Rightarrow> SetSelectedItemNumber h sc b k))"

text \<open>
  The scene when the pair is written: proxies updated, the visible segments exported to
  the labelmap node, and its array multiplied by 255 in place.
\<close>

definition labelmap_exported :: "host \<Rightarrow> node_id \<Rightarrow> node_id \<Rightarrow> node_id \<Rightarrow> scene \<Rightarrow> scene" where
  "labelmap_exported h selectedSegmentation labelmapNode selectedImage sc =
     (let sc1 = UpdateAllProxyNodes h sc;
          sc2 = ExportVisibleSegmentsToLabelmapNode h sc1 selectedSegmentation labelmapNode selectedImage;
          segmentationArray = array_imul h (imageData (nodes sc2 labelmapNode)) 255
      in sc2\<lparr>nodes := (nodes sc2)(labelmapNode := (nodes sc2 labelmapNode)\<lparr>imageData := segmentationArray\<rparr>)\<rparr>)"

text \<open>
  The two names of item \<open>i\<close>. In \<^verbatim>\<open>baseName + "_%04d_segmentation" % i + ".png"\<close> the
  format operator binds first.
\<close>

definition segmentationFileName :: "string \<Rightarrow> nat \<Rightarrow> string" where
  "segmentationFileName baseName i = baseName @ (''_'' @ format_04d i @ ''_segmentation'') @ ''.png''"

definition ultrasoundFileName :: "string \<Rightarrow> nat \<Rightarrow> string" where
  "ultrasoundFileName baseName i = baseName @ (''_'' @ format_04d i @ ''_ultrasound'') @ ''.png''"

text \<open>The loop body from \<^verbatim>\<open>UpdateAllProxyNodes\<close> on: write both files, then step the segmentation browser.\<close>

definition write_pair ::
  "host \<Rightarrow> node_id \<Rightarrow> node_id \<Rightarrow> node_id \<Rightarrow> node_id \<Rightarrow> string \<Rightarrow> string \<Rightarrow> nat \<Rightarrow> world \<Rightarrow> world" where
  "write_pair h selectedImage selectedSegmentation selectedSegmentationSequence labelmapNode
      outputFolder baseName i w =
     (let sc = labelmap_exported h selectedSegmentation labelmapNode selectedImage (mrmlScene w);
          segmentedImageData = imageData (nodes sc labelmapNode);
          ultrasoundData = imageData (nodes sc selectedImage);
          segmentationFullname = os_path_join h outputFolder (segmentationFileName baseName i);
          ultrasoundFullname = os_path_join h outputFolder (ultrasoundFileName baseName i);
          written = [(segmentationFullname, vtkImageCast h segmentedImageData),
                     (ultrasoundFullname, vtkImageCast h ultrasoundData)];
          sc' = UpdateAllProxyNodes h (fst (SelectNextItem h sc selectedSegmentationSequence 1))
      in w\<lparr>mrmlScene := sc', pngFiles := pngFiles w @ written\<rparr>)"

text \<open>One pass of the loop; \<^verbatim>\<open>continue\<close> leaves the pass after the error is logged.\<close>

definition export_item ::
  "host \<Rightarrow> node_id \<Rightarrow> node_id option \<Rightarrow> node_id \<Rightarrow> node_id \<Rightarrow> node_id \<Rightarrow> string \<Rightarrow> string \<Rightarrow> nat \<Rightarrow> world \<Rightarrow> world" where
  "export_item h selectedImage selectedImageSequence selectedSegmentation selectedSegmentationSequence
      labelmapNode outputFolder baseName i w =
     (let originalIndex = GetAttribute (mrmlScene w) selectedSegmentation ORIGINAL_IMAGE_INDEX in
      case originalIndex of
        None \<Rightarrow>
          write_pair h selectedImage selectedSegmentation selectedSegmentationSequence labelmapNode
            outputFolder baseName i
            (logging_at WARNING
              ''Input image index attribute not found in segmentation. Input sequence will not be used.'' w)
      | Some s \<Rightarrow>
          (case try_SetSelectedItemNumber h (mrmlScene w) selectedImageSequence s of
             None \<Rightarrow>
               logging_at ERROR
                 (''Original image not found for segmentation '' @ str_nat i @ '' - skipping'') w
           | Some sc \<Rightarrow>
               write_pair h selectedImage selectedSegmentation selectedSegmentationSequence labelmapNode
                 outputFolder baseName i (w\<lparr>mrmlScene := sc\<rparr>)))"

definition exportPngSequence ::
  "host \<Rightarrow> world \<Rightarrow> node_id \<Rightarrow> node_id option \<Rightarrow> node_id \<Rightarrow> node_id \<Rightarrow> string \<Rightarrow> string \<Rightarrow> world" where
  "exportPngSequence h w selectedImage selectedImageSequence selectedSegmentation
      selectedSegmentationSequence outputFolder baseName =
     (if \<not> os_path_exists h outputFolder
      then logging_at ERROR (''Export folder does not exist '' @ outputFolder) w
      else
        (let (sc1, labelmapNode) = AddNewNodeByClass h (mrmlScene w) ''vtkMRMLLabelMapVolumeNode'';
             num_items = GetNumberOfItems h sc1 selectedSegmentationSequence;
             sc2 = SelectFirstItem h sc1 selectedSegmentationSequence
         in fold (export_item h selectedImage selectedImageSequence selectedSegmentation
                    selectedSegmentationSequence labelmapNode outputFolder baseName)
              [0..<num_items] (w\<lparr>mrmlScene := sc2\<rparr>)))"

section \<open>Widget callbacks\<close>

subsection \<open>onOverlayClicked\<close>

definition onOverlayClicked :: "world \<Rightarrow> world" where
  "onOverlayClicked w =
     (let currentOpacity = foregroundOpacity w in
      if currentOpacity = 0
      then w\<lparr>foregroundOpacity := lastForegroundOpacity w\<rparr>
      else w\<lparr>lastForegroundOpacity := currentOpacity, foregroundOpacity := 0\<rparr>)"

subsection \<open>onImageChange\<close>

text \<open>
  The body of \<^verbatim>\<open>onImageChange\<close> binds three local names, \<^verbatim>\<open>self\<close>, \<^verbatim>\<open>browserNode\<close> and
  \<^verbatim>\<open>inputImageIndex\<close>; only \<^verbatim>\<open>browserNode\<close> refers to a node. The module binds no
  node at its top level. A name is looked up among the locals, then the module's
  globals; a name found in neither raises \<^verbatim>\<open>NameError\<close>.
\<close>

definition module_globals :: "string \<rightharpoonup> node_id" where
  "module_globals = Map.empty"

definition lookup_name :: "(string \<rightharpoonup> node_id) \<Rightarrow> string \<Rightarrow> node_id option" where
  "lookup_name local_names x =
     (case local_names x of Some v \<Rightarrow> Some v | None \<Rightarrow> module_globals x)"

text \<open>
  \<^verbatim>\<open>GetSelectedItemNumber\<close> returns an int, so the test \<^verbatim>\<open>inputImageIndex is not None\<close>
  always succeeds. Calling the method on \<^verbatim>\<open>None\<close> raises \<^verbatim>\<open>AttributeError\<close>.
\<close>

definition onImageChange :: "world \<Rightarrow> node_id option \<Rightarrow> outcome" where
  "onImageChange w browserNode =
     (case browserNode of
        None \<Rightarrow> Raised AttributeError w
      | Some b \<Rightarrow>
          (let local_names = [''browserNode'' \<mapsto> b];
               inputImageIndex = GetSelectedItemNumber (mrmlScene w) b
           in case lookup_name local_names ''inputBrowserNode'' of
                None \<Rightarrow> Raised NameError w
              | Some target \<Rightarrow>
                  Returned (on_scene (SetAttribute target ORIGINAL_IMAGE_INDEX (str_int inputImageIndex)) w)))"

subsection \<open>Selection callbacks\<close>

definition onSkipImagesNumChanged :: "int \<Rightarrow> world \<Rightarrow> world" where
  "onSkipImagesNumChanged val w =
     (case inputSequenceBrowserSelector (widgets w) of
        None \<Rightarrow> w
      | Some inputBrowserNode \<Rightarrow>
          on_scene (SetAttribute inputBrowserNode INPUT_SKIP_NUMBER (str_int val)) w)"

text \<open>
  Assigning \<^verbatim>\<open>skipImagesSpinBox.value\<close>: the toolkit's spin box keeps the value within
  its range and, when the value changes, emits \<^verbatim>\<open>valueChanged\<close>, which \<^verbatim>\<open>setup\<close>
  connects to \<^verbatim>\<open>onSkipImagesNumChanged\<close>.
\<close>

definition set_skipImagesSpinBox :: "int \<Rightarrow> world \<Rightarrow> world" where
  "set_skipImagesSpinBox v w =
     (let bounded = max (skipImagesSpinBoxMinimum (widgets w)) (min (skipImagesSpinBoxMaximum (widgets w)) v) in
      if bounded = skipImagesSpinBox (widgets w) then w
      else onSkipImagesNumChanged bounded (w\<lparr>widgets := (widgets w)\<lparr>skipImagesSpinBox := bounded\<rparr>\<rparr>))"

definition onInputBrowserChanged :: "host \<Rightarrow> world \<Rightarrow> node_id option \<Rightarrow> outcome" where
  "onInputBrowserChanged h w currentNode =
     (let browserNodes = getNodesByClass (mrmlScene w) ''vtkMRMLSequenceBrowserNode'';
          w1 = on_scene (fold (\<lambda>browser. SetAttribute browser INPUT_BROWSER ''False'') browserNodes) w
      in case currentNode of
           None \<Rightarrow> Returned w1
         | Some c \<Rightarrow>
             (let w2 = on_scene (SetAttribute c INPUT_BROWSER ''True'') w1;
                  savedSkip = GetAttribute (mrmlScene w2) c INPUT_SKIP_NUMBER;
                  msg = ''onSequenceBrowserSelected: '' @ nodeName (nodes (mrmlScene w2) c)
              in case savedSkip of
                   Some s \<Rightarrow>
                     (case py_int h s of
                        None \<Rightarrow> Raised ValueError w2
                      | Some v \<Rightarrow> Returned (logging_at DEBUG msg (set_skipImagesSpinBox v w2)))
                 | None \<Rightarrow>
                     (let numSkip = skipImagesSpinBox (widgets w2) in
                      Returned (logging_at DEBUG msg
                        (on_scene (SetAttribute c INPUT_SKIP_NUMBER (str_int numSkip)) w2)))))"

definition onSegmentationChanged :: "world \<Rightarrow> node_id option \<Rightarrow> world" where
  "onSegmentationChanged w currentNode =
     (let segmentationNodes = getNodesByClass (mrmlScene w) ''vtkMRMLSegmentationNode'';
          w1 = on_scene (fold (\<lambda>segmentation. SetAttribute segmentation SEGMENTATION ''False'') segmentationNodes) w
      in case currentNode of
           None \<Rightarrow> w1
         | Some c \<Rightarrow> on_scene (SetAttribute c SEGMENTATION ''True'') w1)"

definition onSegmentationBrowserChanged :: "world \<Rightarrow> node_id option \<Rightarrow> world" where
  "onSegmentationBrowserChanged w currentNode =
     (let browserNodes = getNodesByClass (mrmlScene w) ''vtkMRMLSequenceBrowserNode'';
          w1 = on_scene (fold (\<lambda>browser. SetAttribute browser OUTPUT_BROWSER ''False'') browserNodes) w
      in case currentNode of
           None \<Rightarrow> w1
         | Some c \<Rightarrow> on_scene (SetAttribute c OUTPUT_BROWSER ''True'') w1)"

subsection \<open>onCaptureButton and onSkipButton\<close>

text \<open>
  Both callbacks end with the same test: the item number \<^verbatim>\<open>SelectNextItem\<close> returned
  against the one read before the call; when it is smaller, a debug record is logged and
  the message box is shown.
\<close>

definition wrapped_around :: "int \<Rightarrow> int \<Rightarrow> world \<Rightarrow> world" where
  "wrapped_around newItemNum currentItemNum w =
     (if newItemNum < currentItemNum
      then (logging_at DEBUG ''Sequence wrapped around!'' w)
             \<lparr>messageBoxes := messageBoxes w @ [''Sequence wrapped around!'']\<rparr>
      else w)"

text \<open>
  \<^verbatim>\<open>browser.SelectNextItem(n)\<close> followed by the wraparound test against the item number
  read just before.
\<close>

definition advance :: "host \<Rightarrow> node_id \<Rightarrow> int \<Rightarrow> world \<Rightarrow> world" where
  "advance h browser selectionIncrement w =
     (let currentItemNum = GetSelectedItemNumber (mrmlScene w) browser;
          (sc, newItemNum) = SelectNextItem h (mrmlScene w) browser selectionIncrement
      in wrapped_around newItemNum currentItemNum (w\<lparr>mrmlScene := sc\<rparr>))"

definition onCaptureButton :: "host \<Rightarrow> world \<Rightarrow> outcome" where
  "onCaptureButton h w =
     (let inputImage = inputVolumeSelector (widgets w);
          numSkip = skipImagesSpinBox (widgets w)
      in case inputSequenceBrowserSelector (widgets w) of
           None \<Rightarrow> Returned (logging_at ERROR ''No browser node selected!'' w)
         | Some inputBrowserNode \<Rightarrow>
      (case inputSegmentationSelector (widgets w) of
           None \<Rightarrow> Returned (logging_at ERROR ''No segmentation selected!'' w)
         | Some selectedSegmentation \<Rightarrow>
      (case segmentationBrowserSelector (widgets w) of
           None \<Rightarrow> Returned (logging_at ERROR ''No segmentation sequence browser selected!'' w)
         | Some outputBrowserNode \<Rightarrow>
             (let original_index_str =
                    (if activeBrowserNode w = Some inputBrowserNode then None
                     else GetAttribute (mrmlScene w) selectedSegmentation ORIGINAL_IMAGE_INDEX)
              in if original_index_str = None \<or> original_index_str = Some ''None''
                    \<or> original_index_str = Some []
                 then
                   (let inputImageIndex = GetSelectedItemNumber (mrmlScene w) inputBrowserNode;
                        w1 = on_scene (SetAttribute selectedSegmentation ORIGINAL_IMAGE_INDEX
                                         (str_int inputImageIndex)) w
                    in case captureSlice h w1 outputBrowserNode selectedSegmentation inputImage of
                         Raised e w2 \<Rightarrow> Raised e w2
                       | Returned w2 \<Rightarrow>
                           (let w3 = on_scene (eraseCurrentSegmentation selectedSegmentation) w2;
                                w4 = on_scene (SetAttribute selectedSegmentation ORIGINAL_IMAGE_INDEX ''None'') w3
                            in Returned (advance h inputBrowserNode numSkip w4)))
                 else
                   (case captureSlice h w outputBrowserNode selectedSegmentation inputImage of
                      Raised e w2 \<Rightarrow> Raised e w2
                    | Returned w2 \<Rightarrow> Returned (advance h outputBrowserNode 1 w2))))))"

text \<open>
  In \<^verbatim>\<open>onSkipButton\<close> the output browser is compared with the toolbar's active browser
  without a null check: when both are \<^verbatim>\<open>None\<close> the comparison holds and the method call
  on \<^verbatim>\<open>None\<close> raises.
\<close>

definition onSkipButton :: "host \<Rightarrow> world \<Rightarrow> outcome" where
  "onSkipButton h w =
     (let outputBrowserNode = segmentationBrowserSelector (widgets w);
          numSkip = skipImagesSpinBox (widgets w)
      in case inputSequenceBrowserSelector (widgets w) of
           None \<Rightarrow> Returned (logging_at ERROR ''No browser node selected!'' w)
         | Some inputBrowserNode \<Rightarrow>
      (case inputSegmentationSelector (widgets w) of
           None \<Rightarrow> Returned (logging_at ERROR ''No segmentation selected!'' w)
         | Some selectedSegmentation \<Rightarrow>
             (if activeBrowserNode w = outputBrowserNode
              then (case outputBrowserNode of
                      None \<Rightarrow> Raised AttributeError w
                    | Some ob \<Rightarrow> Returned (advance h ob 1 w))
              else Returned (advance h inputBrowserNode numSkip
                     (on_scene (eraseCurrentSegmentation selectedSegmentation) w)))))"

subsection \<open>onConvertButton and onExportButton\<close>

definition onConvertButton :: "host \<Rightarrow> world \<Rightarrow> outcome" where
  "onConvertButton h w =
     (case segmentationBrowserSelector (widgets w) of
        None \<Rightarrow> Returned (logging_at ERROR ''No browser node selected!'' w)
      | Some inputBrowserNode \<Rightarrow>
     (case inputSegmentationSelector (widgets w) of
        None \<Rightarrow> Returned (logging_at ERROR ''No segmentation selected!'' w)
      | Some segmentationNode \<Rightarrow>
     (case inputVolumeSelector (widgets w) of
        None \<Rightarrow> Returned (logging_at ERROR ''No ultrasound volume selected!'' w)
      | Some ultrasoundNode \<Rightarrow>
          convertSegmentationSequenceToVolumeSequence h w inputBrowserNode segmentationNode
            ultrasoundNode (convertValueSpinBox (widgets w)))))"

text \<open>
  The fourth test of \<^verbatim>\<open>onExportButton\<close> reads \<^verbatim>\<open>selectedImage\<close> again, as the source
  does; \<^verbatim>\<open>selectedImageSequence\<close> is passed on as it is.
\<close>

definition onExportButton :: "host \<Rightarrow> world \<Rightarrow> outcome" where
  "onExportButton h w =
     (let selectedImageSequence = inputSequenceBrowserSelector (widgets w);
          outputFolder = outputDirectoryButton (widgets w);
          baseName = filenamePrefixEdit (widgets w)
      in case inputSegmentationSelector (widgets w) of
           None \<Rightarrow> Returned (logging_at ERROR ''No segmentation selected!'' w)
         | Some selectedSegmentation \<Rightarrow>
      (case segmentationBrowserSelector (widgets w) of
           None \<Rightarrow> Returned (logging_at ERROR ''No segmentation sequence browser selected!'' w)
         | Some selectedSegmentationSequence \<Rightarrow>
      (case inputVolumeSelector (widgets w) of
           None \<Rightarrow> Returned (logging_at ERROR ''No image selected!'' w)
         | Some selectedImage \<Rightarrow>
      (case inputVolumeSelector (widgets w) of
           None \<Rightarrow> Returned (logging_at ERROR ''No image sequence browser selected!'' w)
         | Some _ \<Rightarrow>
             (if exportTransformCheckBox (widgets w)
              then (case exportNumpySlice h w selectedImage selectedImageSequence selectedSegmentation
                           selectedSegmentationSequence outputFolder baseName of
                      Raised e w1 \<Rightarrow> Raised e w1
                    | Returned w1 \<Rightarrow>
                        exportTransformToWorldSequence h w1 selectedImage selectedImageSequence
                          selectedSegmentation selectedSegmentationSequence outputFolder baseName)
              else Returned (exportPngSequence h w selectedImage selectedImageSequence
                     selectedSegmentation selectedSegmentationSequence outputFolder baseName))))))"

section \<open>Statements about the callbacks\<close>

definition world_of :: "outcome \<Rightarrow> world" where
  "world_of r = (case r of Returned w \<Rightarrow> w | Raised e w \<Rightarrow> w)"

definition raised_error :: "outcome \<Rightarrow> py_error option" where
  "raised_error r = (case r of Returned w \<Rightarrow> None | Raised e w \<Rightarrow> Some e)"

text \<open>
  A role attribute marks the selection: among the scene's nodes of the class, a node
  carries \<open>True\<close> exactly when it is the selected one (so at most one does, and none when
  nothing is selected), and a selected node carries \<open>True\<close>.
\<close>

definition role_marks :: "scene \<Rightarrow> string \<Rightarrow> string \<Rightarrow> node_id option \<Rightarrow> bool" where
  "role_marks sc cls role selected =
     ((\<forall>n \<in> set (getNodesByClass sc cls). (GetAttribute sc n role = Some ''True'') = (selected = Some n))
      \<and> (case selected of None \<Rightarrow> True | Some c \<Rightarrow> GetAttribute sc c role = Some ''True''))"

text \<open>
  Position \<open>i\<close> is the earliest entry of a sequence whose stored data node has the
  attribute value \<open>originalIndex\<close> (absent counts as a value, as Python's \<^verbatim>\<open>==\<close> has it).
\<close>

definition earliest_match :: "string option \<Rightarrow> (string \<times> data_node) list \<Rightarrow> nat \<Rightarrow> bool" where
  "earliest_match originalIndex es i =
     (i < length es
      \<and> dn_attribute (snd (es ! i)) ORIGINAL_IMAGE_INDEX = originalIndex
      \<and> (\<forall>k < i. dn_attribute (snd (es ! k)) ORIGINAL_IMAGE_INDEX \<noteq> originalIndex))"

definition no_match :: "string option \<Rightarrow> (string \<times> data_node) list \<Rightarrow> bool" where
  "no_match originalIndex es =
     (\<forall>e \<in> set es. dn_attribute (snd e) ORIGINAL_IMAGE_INDEX \<noteq> originalIndex)"

text \<open>
  The message boxes a wraparound test calls for when \<open>browser\<close> is advanced by \<open>n\<close> items
  in state \<open>before\<close>: one box when the item number \<^verbatim>\<open>SelectNextItem\<close> reports as newly
  selected is strictly smaller than the item number selected before, none otherwise.
\<close>

definition box_if_smaller :: "host \<Rightarrow> node_id \<Rightarrow> int \<Rightarrow> world \<Rightarrow> string list" where
  "box_if_smaller h browser n before =
     (if snd (SelectNextItem h (mrmlScene before) browser n)
           < GetSelectedItemNumber (mrmlScene before) browser
      then [''Sequence wrapped around!''] else [])"

text \<open>
  A pass of the export loop is skipped when the segmentation has the attribute and the
  guarded repositioning of the image browser fails.
\<close>

definition item_skipped :: "host \<Rightarrow> node_id option \<Rightarrow> node_id \<Rightarrow> world \<Rightarrow> bool" where
  "item_skipped h selectedImageSequence selectedSegmentation w =
     (case GetAttribute (mrmlScene w) selectedSegmentation ORIGINAL_IMAGE_INDEX of
        None \<Rightarrow> False
      | Some s \<Rightarrow>
          (case try_SetSelectedItemNumber h (mrmlScene w) selectedImageSequence s of
             None \<Rightarrow> True
           | Some sc \<Rightarrow> False))"

text \<open>
  The two files of item \<open>i\<close> as they are written from a scene: the labelmap and the
  selected image are read after the proxy update and the labelmap export on that scene.
\<close>

definition rendered_pair ::
  "host \<Rightarrow> node_id \<Rightarrow> node_id \<Rightarrow> node_id \<Rightarrow> string \<Rightarrow> string \<Rightarrow> nat \<Rightarrow> scene \<Rightarrow> (string \<times> image_data) list" where
  "rendered_pair h selectedImage selectedSegmentation labelmapNode outputFolder baseName i sc =
     [(os_path_join h outputFolder (baseName @ ''_'' @ format_04d i @ ''_segmentation.png''),
       vtkImageCast h (imageData (nodes
         (labelmap_exported h selectedSegmentation labelmapNode selectedImage sc) labelmapNode))),
      (os_path_join h outputFolder (baseName @ ''_'' @ format_04d i @ ''_ultrasound.png''),
       vtkImageCast h (imageData (nodes
         (labelmap_exported h selectedSegmentation labelmapNode selectedImage sc) selectedImage)))]"

text \<open>The state \<^verbatim>\<open>exportPngSequence\<close> is in when it starts pass \<open>i\<close> of its loop.\<close>

definition state_before_item ::
  "host \<Rightarrow> world \<Rightarrow> node_id \<Rightarrow> node_id option \<Rightarrow> node_id \<Rightarrow> node_id \<Rightarrow> string \<Rightarrow> string \<Rightarrow> nat \<Rightarrow> world" where
  "state_before_item h w selectedImage selectedImageSequence selectedSegmentation
      selectedSegmentationSequence outputFolder baseName i =
     (let (sc1, labelmapNode) = AddNewNodeByClass h (mrmlScene w) ''vtkMRMLLabelMapVolumeNode'';
          sc2 = SelectFirstItem h sc1 selectedSegmentationSequence
      in fold (export_item h selectedImage selectedImageSequence selectedSegmentation
                 selectedSegmentationSequence labelmapNode outputFolder baseName)
           [0..<i] (w\<lparr>mrmlScene := sc2\<rparr>))"

section \<open>A concrete host and scene, for evaluating the model\<close>

text \<open>
  A small host: browsers step through the items of their first sequence and wrap around;
  moving a browser to another item reloads its proxy nodes from the stored data nodes,
  while selecting the item it is already at does nothing; \<^verbatim>\<open>UpdateAllProxyNodes\<close>
  reloads the proxy nodes of every browser of the scene, and a modified sequence those
  of the browsers that keep it; an item number out of range is accepted and reloads
  nothing; saving the proxy state appends to every sequence of the browser; a new index
  value is inserted in numeric order; the labelmap export copies the first segment;
  arrays are unbounded ints, the cast is modulo 256, and \<^verbatim>\<open>int\<close> reads plain decimal
  numerals with an optional minus sign.
\<close>

definition demo_digit :: "char \<Rightarrow> nat option" where
  "demo_digit c = map_of (zip ''0123456789'' [0, 1, 2, 3, 4, 5, 6, 7, 8, 9]) c"

definition demo_nat :: "string \<Rightarrow> nat option" where
  "demo_nat s =
     (if s = [] then None
      else fold (\<lambda>c acc. case acc of None \<Rightarrow> None
                          | Some a \<Rightarrow> (case demo_digit c of None \<Rightarrow> None | Some d \<Rightarrow> Some (10 * a + d)))
             s (Some 0))"

definition demo_int :: "string \<Rightarrow> int option" where
  "demo_int s =
     (case s of
        [] \<Rightarrow> None
      | c # cs \<Rightarrow> (if c = CHR ''-'' then map_option (\<lambda>n. - int n) (demo_nat cs)
                   else map_option int (demo_nat s)))"

definition demo_proxies :: "scene \<Rightarrow> node_id \<Rightarrow> (node_id \<times> data_node) list" where
  "demo_proxies sc b =
     concat (map (\<lambda>ps. let es = indexEntries (nodes sc (snd ps));
                           k = selectedItemNumber (nodes sc b)
                       in if 0 \<le> k \<and> nat k < length es then [(fst ps, snd (es ! nat k))] else [])
               (proxySequences (nodes sc b)))"

definition demo_browsers :: "scene \<Rightarrow> node_id list" where
  "demo_browsers sc = getNodesByClass sc ''vtkMRMLSequenceBrowserNode''"

definition demo_reloaded :: "scene \<Rightarrow> node_id \<Rightarrow> (node_id \<times> data_node) list" where
  "demo_reloaded sc s =
     concat (map (\<lambda>b. if s \<in> set (map snd (proxySequences (nodes sc b)))
                       then demo_proxies sc b else [])
               (demo_browsers sc))"

definition demo_update_all :: "scene \<Rightarrow> scene" where
  "demo_update_all sc = fold load_data_node (concat (map (demo_proxies sc) (demo_browsers sc))) sc"

definition demo_select :: "scene \<Rightarrow> node_id \<Rightarrow> int \<Rightarrow> scene" where
  "demo_select sc b k =
     (if selectedItemNumber (nodes sc b) = k then sc
      else (let moved = sc\<lparr>nodes := (nodes sc)(b := (nodes sc b)\<lparr>selectedItemNumber := k\<rparr>)\<rparr>
            in fold load_data_node (demo_proxies moved b) moved))"

definition demo_items :: "scene \<Rightarrow> node_id \<Rightarrow> nat" where
  "demo_items sc b =
     (case proxySequences (nodes sc b) of
        [] \<Rightarrow> 0
      | ps # _ \<Rightarrow> length (indexEntries (nodes sc (snd ps))))"

definition demo_next :: "scene \<Rightarrow> node_id \<Rightarrow> int \<Rightarrow> scene \<times> int" where
  "demo_next sc b inc =
     (if demo_items sc b = 0 then (sc, - 1)
      else (let k = (selectedItemNumber (nodes sc b) + inc) mod int (demo_items sc b)
            in (demo_select sc b k, k)))"

definition demo_save :: "scene \<Rightarrow> node_id \<Rightarrow> scene" where
  "demo_save sc b =
     fold (\<lambda>ps s. s\<lparr>nodes := (nodes s)(snd ps := (nodes s (snd ps))
               \<lparr>indexEntries := indexEntries (nodes s (snd ps))
                   @ [(str_nat (length (indexEntries (nodes s (snd ps)))), copy_of_node (nodes s (fst ps)))]\<rparr>)\<rparr>)
       (proxySequences (nodes sc b)) sc"

definition demo_position :: "(string \<times> data_node) list \<Rightarrow> string \<Rightarrow> nat" where
  "demo_position es v =
     length (takeWhile (\<lambda>e. case (demo_nat (fst e), demo_nat v) of
                               (Some x, Some y) \<Rightarrow> x < y
                             | _ \<Rightarrow> True) es)"

definition demo_add :: "scene \<Rightarrow> string \<Rightarrow> scene \<times> node_id" where
  "demo_add sc c =
     (let n = Suc (fold max (sceneNodes sc) 0)
      in (sc\<lparr>nodes := (nodes sc)(n := (nodes sc n)\<lparr>className := c\<rparr>), sceneNodes := sceneNodes sc @ [n]\<rparr>, n))"

definition demo_labelmap :: "scene \<Rightarrow> node_id \<Rightarrow> node_id \<Rightarrow> node_id \<Rightarrow> scene" where
  "demo_labelmap sc seg labelmapNode img =
     sc\<lparr>nodes := (nodes sc)(labelmapNode := (nodes sc labelmapNode)
        \<lparr>imageData := (case segments (nodes sc seg) of [] \<Rightarrow> [] | s # _ \<Rightarrow> s)\<rparr>)\<rparr>"

definition demo_host :: host where
  "demo_host =
     \<lparr>py_int = demo_int,
      os_path_exists = (\<lambda>p. p = ''/out''),
      os_path_join = (\<lambda>a b. a @ ''/'' @ b),
      AddNewNodeByClass = demo_add,
      GetNumberOfItems = demo_items,
      SelectFirstItem = (\<lambda>sc b. demo_select sc b 0),
      SelectNextItem = demo_next,
      SetSelectedItemNumber = (\<lambda>sc b k. Some (demo_select sc b k)),
      SaveProxyNodesState = demo_save,
      UpdateAllProxyNodes = demo_update_all,
      ExportVisibleSegmentsToLabelmapNode = demo_labelmap,
      GetInsertPosition = demo_position,
      ProxyNodesReloaded = demo_reloaded,
      array_imul = (\<lambda>a k. map (\<lambda>x. x * k) a),
      vtkImageCast = map (\<lambda>x. x mod 256),
      exportNumpySlice = (\<lambda>w img imgSeq seg segSeq folder base. Returned w),
      exportTransformToWorldSequence = (\<lambda>w img imgSeq seg segSeq folder base. Returned w),
      convertSegmentationSequenceToVolumeSequence = (\<lambda>w b seg us v. Returned w)\<rparr>"

text \<open>
  A scene of seven nodes: the input browser 1, the output browser 2, the segmentation 3,
  the ultrasound volume 4, the two sequences 5 and 6 that the output browser keeps for
  the segmentation and for the volume, and the input browser's sequence 7 of three frames. Every other address holds \<open>demo_node\<close>.
\<close>

definition demo_node :: node where
  "demo_node =
     \<lparr>className = [], nodeName = [], attribute = Map.empty, segments = [], imageData = [],
      selectedItemNumber = 0, proxySequences = [], indexEntries = []\<rparr>"

definition demo_entry :: "string option \<Rightarrow> data_node" where
  "demo_entry a =
     \<lparr>dn_attribute = (\<lambda>k. if k = ORIGINAL_IMAGE_INDEX then a else None),
      dn_segments = [[1, 1]], dn_imageData = []\<rparr>"

definition demo_frame :: "image_data \<Rightarrow> data_node" where
  "demo_frame pixels = \<lparr>dn_attribute = Map.empty, dn_segments = [], dn_imageData = pixels\<rparr>"

definition demo_scene :: scene where
  "demo_scene =
     \<lparr>nodes = (\<lambda>n. demo_node)
        (1 := demo_node\<lparr>className := ''vtkMRMLSequenceBrowserNode'', nodeName := ''Input'',
                         selectedItemNumber := 2, proxySequences := [(4, 7)]\<rparr>,
         2 := demo_node\<lparr>className := ''vtkMRMLSequenceBrowserNode'', nodeName := ''Output'',
                         proxySequences := [(3, 5), (4, 6)]\<rparr>,
         3 := demo_node\<lparr>className := ''vtkMRMLSegmentationNode'', nodeName := ''Segmentation'',
                         segments := [[0, 1, 1]]\<rparr>,
         4 := demo_node\<lparr>className := ''vtkMRMLScalarVolumeNode'', nodeName := ''Image_Image'',
                         imageData := [7, 8, 9]\<rparr>,
         5 := demo_node\<lparr>className := ''vtkMRMLSequenceNode'',
                         indexEntries := [(''0'', demo_entry (Some ''0'')), (''1'', demo_entry (Some ''2''))]\<rparr>,
         6 := demo_node\<lparr>className := ''vtkMRMLSequenceNode'',
                         indexEntries := [(''0'', demo_frame [10]), (''1'', demo_frame [30])]\<rparr>,
         7 := demo_node\<lparr>className := ''vtkMRMLSequenceNode'',
                         indexEntries := [(''0'', demo_frame [10]), (''1'', demo_frame [20]),
                                          (''2'', demo_frame [30])]\<rparr>),
      sceneNodes = [1, 2, 3, 4, 5, 6, 7]\<rparr>"

definition demo_ui :: ui where
  "demo_ui =
     \<lparr>inputSequenceBrowserSelector = Some 1, inputVolumeSelector = Some 4,
      inputSegmentationSelector = Some 3, segmentationBrowserSelector = Some 2,
      skipImagesSpinBox = 4, skipImagesSpinBoxMinimum = 0, skipImagesSpinBoxMaximum = 99,
      convertValueSpinBox = 1, outputDirectoryButton = ''/out'', filenamePrefixEdit = ''scan'',
      exportTransformCheckBox = False\<rparr>"

definition demo_world :: world where
  "demo_world =
     \<lparr>mrmlScene = demo_scene, widgets = demo_ui, lastForegroundOpacity = 0.3,
      foregroundOpacity = 0, activeBrowserNode = Some 1, logged = [], messageBoxes = [],
      pngFiles = []\<rparr>"

text \<open>
  Two variations of the scene for \<^verbatim>\<open>captureSlice\<close>. In the first the segmentation has no
  \<open>ORIGINAL_IMAGE_INDEX\<close> attribute and the one stored data node has none either. In the
  second the segmentation and the stored data node both carry the string 5, but the
  stored item sits at index value 7 while the volume's sequence has index value 0 at
  that position.
\<close>

definition absent_index_world :: world where
  "absent_index_world =
     demo_world\<lparr>mrmlScene := demo_scene\<lparr>nodes := (nodes demo_scene)
        (5 := demo_node\<lparr>indexEntries := [(''0'', demo_entry None)]\<rparr>)\<rparr>\<rparr>"

definition shifted_index_world :: world where
  "shifted_index_world =
     demo_world\<lparr>mrmlScene := demo_scene\<lparr>nodes := (nodes demo_scene)
        (3 := demo_node\<lparr>attribute := [ORIGINAL_IMAGE_INDEX \<mapsto> ''5''], segments := [[0, 1, 1]]\<rparr>,
         5 := demo_node\<lparr>indexEntries := [(''7'', demo_entry (Some ''5''))]\<rparr>)\<rparr>\<rparr>"

text \<open>
  Variations of the widget's selections: no input volume selected; no output browser
  selected; no segmentation selected; no input browser selected; and the output browser
  active in the toolbar while the segmentation carries the index string 2.
\<close>

definition no_volume_world :: world where
  "no_volume_world = demo_world\<lparr>widgets := demo_ui\<lparr>inputVolumeSelector := None\<rparr>\<rparr>"

definition no_output_browser_world :: world where
  "no_output_browser_world = demo_world\<lparr>widgets := demo_ui\<lparr>segmentationBrowserSelector := None\<rparr>\<rparr>"

definition no_segmentation_world :: world where
  "no_segmentation_world = demo_world\<lparr>widgets := demo_ui\<lparr>inputSegmentationSelector := None\<rparr>\<rparr>"

definition no_input_browser_world :: world where
  "no_input_browser_world = demo_world\<lparr>widgets := demo_ui\<lparr>inputSequenceBrowserSelector := None\<rparr>\<rparr>"

definition overwrite_world :: world where
  "overwrite_world =
     demo_world\<lparr>mrmlScene := SetAttribute 3 ORIGINAL_IMAGE_INDEX ''2'' demo_scene,
                 activeBrowserNode := Some 2\<rparr>"

text \<open>
  All four selections made, but the output browser keeps a sequence for the segmentation
  only, none for the volume.
\<close>

definition no_volume_sequence_world :: world where
  "no_volume_sequence_world =
     demo_world\<lparr>mrmlScene := demo_scene\<lparr>nodes := (nodes demo_scene)
        (2 := (nodes demo_scene 2)\<lparr>proxySequences := [(3, 5)]\<rparr>)\<rparr>\<rparr>"

text \<open>
  A scene for the export, in which every proxy node holds what its browser's selected
  item stores. The input browser is at its first frame, which the volume shows; the
  output browser keeps the segmentation's sequence only and is at its first item, which
  the segmentation shows. The two stored segmentations were made on frame 2 and on
  frame 1, in this order.
\<close>

definition export_scene :: scene where
  "export_scene =
     demo_scene\<lparr>nodes := (nodes demo_scene)
        (1 := (nodes demo_scene 1)\<lparr>selectedItemNumber := 0\<rparr>,
         2 := (nodes demo_scene 2)\<lparr>proxySequences := [(3, 5)]\<rparr>,
         3 := (nodes demo_scene 3)\<lparr>attribute := [ORIGINAL_IMAGE_INDEX \<mapsto> ''2''], segments := [[1, 1]]\<rparr>,
         4 := (nodes demo_scene 4)\<lparr>imageData := [10]\<rparr>,
         5 := (nodes demo_scene 5)\<lparr>indexEntries := [(''0'', demo_entry (Some ''2'')),
                                                        (''1'', demo_entry (Some ''1''))]\<rparr>)\<rparr>"

definition export_world :: world where
  "export_world = demo_world\<lparr>mrmlScene := export_scene\<rparr>"

text \<open>
  Variations of it with one stored segmentation. In the first the segmentation and its
  stored copy carry the index string 99, while the input browser's sequence has three
  frames. In the second they carry the string \<open>None\<close>, which \<^verbatim>\<open>onCaptureButton\<close> leaves on
  the segmentation after a capture and which \<^verbatim>\<open>int\<close> rejects.
\<close>

definition out_of_range_world :: world where
  "out_of_range_world =
     demo_world\<lparr>mrmlScene := export_scene\<lparr>nodes := (nodes export_scene)
        (3 := (nodes export_scene 3)\<lparr>attribute := [ORIGINAL_IMAGE_INDEX \<mapsto> ''99'']\<rparr>,
         5 := (nodes export_scene 5)\<lparr>indexEntries := [(''0'', demo_entry (Some ''99''))]\<rparr>)\<rparr>\<rparr>"

definition unusable_index_world :: world where
  "unusable_index_world =
     demo_world\<lparr>mrmlScene := export_scene\<lparr>nodes := (nodes export_scene)
        (3 := (nodes export_scene 3)\<lparr>attribute := [ORIGINAL_IMAGE_INDEX \<mapsto> ''None'']\<rparr>,
         5 := (nodes export_scene 5)\<lparr>indexEntries := [(''0'', demo_entry (Some ''None''))]\<rparr>)\<rparr>\<rparr>"

text \<open>
  No image sequence browser selected, while the one stored segmentation has no
  \<open>ORIGINAL_IMAGE_INDEX\<close> attribute.
\<close>

definition no_image_browser_world :: world where
  "no_image_browser_world =
     demo_world\<lparr>mrmlScene := demo_scene\<lparr>nodes := (nodes demo_scene)
        (5 := demo_node\<lparr>indexEntries := [(''0'', demo_entry None)]\<rparr>)\<rparr>,
        widgets := demo_ui\<lparr>inputSequenceBrowserSelector := None\<rparr>\<rparr>"

section \<open>Properties\<close>

text \<open>
  C10. Applying \<^verbatim>\<open>onOverlayClicked\<close> twice restores the Red slice foreground opacity:
  one call sets a nonzero opacity to 0 and saves the old value in
  \<open>lastForegroundOpacity\<close>, and restores the saved value when the opacity is 0; so for
  every starting opacity, and every saved value, the double application leaves the
  foreground opacity as it was.
\<close>

theorem onOverlayClicked_twice:
  "foregroundOpacity (onOverlayClicked (onOverlayClicked w)) = foregroundOpacity w
   \<and> foregroundOpacity (onOverlayClicked w)
       = (if foregroundOpacity w = 0 then lastForegroundOpacity w else 0)
   \<and> lastForegroundOpacity (onOverlayClicked w)
       = (if foregroundOpacity w = 0 then lastForegroundOpacity w else foregroundOpacity w)"
  by (simp add: onOverlayClicked_def Let_def)

text \<open>
  C9. For every non-null browser node argument, \<^verbatim>\<open>onImageChange\<close> raises \<^verbatim>\<open>NameError\<close>:
  after reading the browser's selected item number it assigns the attribute through the
  name \<^verbatim>\<open>inputBrowserNode\<close>, which is bound neither in the function nor in the module;
  the state is left as it was, so \<open>ORIGINAL_IMAGE_INDEX\<close> is never recorded.
\<close>

theorem onImageChange_NameError:
  "onImageChange w (Some b) = Raised NameError w"
  by (simp add: onImageChange_def lookup_name_def module_globals_def Let_def)

subsection \<open>Attributes under the selection callbacks\<close>

lemma GetAttribute_SetAttribute:
  "GetAttribute (SetAttribute m k v sc) n k' = (if n = m \<and> k' = k then Some v else GetAttribute sc n k')"
  by (simp add: GetAttribute_def SetAttribute_def)

lemma className_SetAttribute: "className (nodes (SetAttribute m k v sc) n) = className (nodes sc n)"
  by (simp add: SetAttribute_def)

lemma sceneNodes_SetAttribute: "sceneNodes (SetAttribute m k v sc) = sceneNodes sc"
  by (simp add: SetAttribute_def)

lemma getNodesByClass_SetAttribute: "getNodesByClass (SetAttribute m k v sc) c = getNodesByClass sc c"
  by (simp add: getNodesByClass_def className_SetAttribute sceneNodes_SetAttribute)

lemma GetAttribute_fold_SetAttribute:
  "GetAttribute (fold (\<lambda>b. SetAttribute b k v) bs sc) n k' =
     (if n \<in> set bs \<and> k' = k then Some v else GetAttribute sc n k')"
  by (induction bs arbitrary: sc) (auto simp: GetAttribute_SetAttribute)

lemma getNodesByClass_fold_SetAttribute:
  "getNodesByClass (fold (\<lambda>b. SetAttribute b k v) bs sc) c = getNodesByClass sc c"
  by (induction bs arbitrary: sc) (auto simp: getNodesByClass_SetAttribute)

lemma role_marks_cleared:
  "role_marks (fold (\<lambda>b. SetAttribute b role ''False'') (getNodesByClass sc cls) sc) cls role None"
  by (simp add: role_marks_def getNodesByClass_fold_SetAttribute GetAttribute_fold_SetAttribute)

lemma role_marks_selected:
  "role_marks (SetAttribute c role ''True''
      (fold (\<lambda>b. SetAttribute b role ''False'') (getNodesByClass sc cls) sc)) cls role (Some c)"
  by (auto simp add: role_marks_def getNodesByClass_fold_SetAttribute GetAttribute_fold_SetAttribute
      getNodesByClass_SetAttribute GetAttribute_SetAttribute)

lemma role_marks_other_key:
  "k \<noteq> role \<Longrightarrow> role_marks (SetAttribute m k v sc) cls role sel = role_marks sc cls role sel"
  by (simp add: role_marks_def getNodesByClass_SetAttribute GetAttribute_SetAttribute split: option.splits)

lemma INPUT_SKIP_NUMBER_neq: "INPUT_SKIP_NUMBER \<noteq> INPUT_BROWSER"
  by (simp add: INPUT_SKIP_NUMBER_def INPUT_BROWSER_def)

lemma role_marks_set_skipImagesSpinBox:
  "role_marks (mrmlScene (set_skipImagesSpinBox v w)) cls INPUT_BROWSER sel
     = role_marks (mrmlScene w) cls INPUT_BROWSER sel"
  by (simp add: set_skipImagesSpinBox_def onSkipImagesNumChanged_def on_scene_def Let_def
      role_marks_other_key INPUT_SKIP_NUMBER_neq split: option.splits)

lemma mrmlScene_logging_at: "mrmlScene (logging_at lv msg w) = mrmlScene w"
  by (simp add: logging_at_def)

lemma mrmlScene_on_scene: "mrmlScene (on_scene f w) = f (mrmlScene w)"
  by (simp add: on_scene_def)

lemma onInputBrowserChanged_marks:
  "role_marks (mrmlScene (world_of (onInputBrowserChanged h w currentNode)))
      ''vtkMRMLSequenceBrowserNode'' INPUT_BROWSER currentNode"
  by (simp add: onInputBrowserChanged_def world_of_def Let_def mrmlScene_logging_at mrmlScene_on_scene
      role_marks_set_skipImagesSpinBox role_marks_other_key INPUT_SKIP_NUMBER_neq
      role_marks_cleared role_marks_selected split: option.splits)

lemma onSegmentationChanged_marks:
  "role_marks (mrmlScene (onSegmentationChanged w currentNode))
      ''vtkMRMLSegmentationNode'' SEGMENTATION currentNode"
  by (simp add: onSegmentationChanged_def Let_def mrmlScene_on_scene
      role_marks_cleared role_marks_selected split: option.splits)

lemma onSegmentationBrowserChanged_marks:
  "role_marks (mrmlScene (onSegmentationBrowserChanged w currentNode))
      ''vtkMRMLSequenceBrowserNode'' OUTPUT_BROWSER currentNode"
  by (simp add: onSegmentationBrowserChanged_def Let_def mrmlScene_on_scene
      role_marks_cleared role_marks_selected split: option.splits)

lemma getNodesByClass_set_skipImagesSpinBox:
  "getNodesByClass (mrmlScene (set_skipImagesSpinBox v w)) cls = getNodesByClass (mrmlScene w) cls"
  by (simp add: set_skipImagesSpinBox_def onSkipImagesNumChanged_def on_scene_def Let_def
      getNodesByClass_SetAttribute split: option.splits)

lemma getNodesByClass_onInputBrowserChanged:
  "getNodesByClass (mrmlScene (world_of (onInputBrowserChanged h w currentNode))) cls
     = getNodesByClass (mrmlScene w) cls"
  by (simp add: onInputBrowserChanged_def world_of_def Let_def mrmlScene_logging_at mrmlScene_on_scene
    getNodesByClass_SetAttribute getNodesByClass_fold_SetAttribute getNodesByClass_set_skipImagesSpinBox
    split: option.splits)

lemma getNodesByClass_onSegmentationChanged:
  "getNodesByClass (mrmlScene (onSegmentationChanged w currentNode)) cls = getNodesByClass (mrmlScene w) cls"
  by (simp add: onSegmentationChanged_def Let_def mrmlScene_on_scene
    getNodesByClass_SetAttribute getNodesByClass_fold_SetAttribute split: option.splits)

lemma getNodesByClass_onSegmentationBrowserChanged:
  "getNodesByClass (mrmlScene (onSegmentationBrowserChanged w currentNode)) cls
     = getNodesByClass (mrmlScene w) cls"
  by (simp add: onSegmentationBrowserChanged_def Let_def mrmlScene_on_scene
    getNodesByClass_SetAttribute getNodesByClass_fold_SetAttribute split: option.splits)

lemma demo_classes:
  "getNodesByClass (mrmlScene demo_world) ''vtkMRMLSequenceBrowserNode'' = [1, 2]"
  "getNodesByClass (mrmlScene demo_world) ''vtkMRMLSegmentationNode'' = [3]"
  by (simp_all add: demo_world_def demo_scene_def getNodesByClass_def demo_node_def)

text \<open>
  C8. After any call to \<^verbatim>\<open>onInputBrowserChanged\<close>, \<^verbatim>\<open>onSegmentationBrowserChanged\<close> or
  \<^verbatim>\<open>onSegmentationChanged\<close> (whether it returns or raises), among the scene's nodes of
  the corresponding class a node carries the value \<open>True\<close> for the role attribute
  (\<open>INPUT_BROWSER\<close>, \<open>OUTPUT_BROWSER\<close>, \<open>SEGMENTATION\<close>) exactly when it is the newly selected
  node: at most one node carries it, the selected node does when the selection is
  non-null, and no node does when the selection is null.
\<close>

theorem selection_role_attribute:
  "role_marks (mrmlScene (world_of (onInputBrowserChanged h w currentNode)))
      ''vtkMRMLSequenceBrowserNode'' INPUT_BROWSER currentNode
   \<and> role_marks (mrmlScene (onSegmentationBrowserChanged w currentNode))
      ''vtkMRMLSequenceBrowserNode'' OUTPUT_BROWSER currentNode
   \<and> role_marks (mrmlScene (onSegmentationChanged w currentNode))
      ''vtkMRMLSegmentationNode'' SEGMENTATION currentNode"
  by (simp only: onInputBrowserChanged_marks onSegmentationChanged_marks
      onSegmentationBrowserChanged_marks simp_thms)

theorem selection_role_attribute_witness:
  "GetAttribute (mrmlScene (world_of (onInputBrowserChanged demo_host demo_world (Some 1)))) 1 INPUT_BROWSER
     = Some ''True''
   \<and> GetAttribute (mrmlScene (world_of (onInputBrowserChanged demo_host demo_world (Some 1)))) 2 INPUT_BROWSER
     \<noteq> Some ''True''
   \<and> GetAttribute (mrmlScene (onSegmentationBrowserChanged demo_world None)) 1 OUTPUT_BROWSER \<noteq> Some ''True''
   \<and> GetAttribute (mrmlScene (onSegmentationBrowserChanged demo_world None)) 2 OUTPUT_BROWSER \<noteq> Some ''True''
   \<and> GetAttribute (mrmlScene (onSegmentationChanged demo_world (Some 3))) 3 SEGMENTATION = Some ''True''"
  using selection_role_attribute [of demo_host demo_world "Some 1"]
        selection_role_attribute [of demo_host demo_world None]
        selection_role_attribute [of demo_host demo_world "Some 3"]
  by (simp add: role_marks_def getNodesByClass_onInputBrowserChanged
      getNodesByClass_onSegmentationChanged getNodesByClass_onSegmentationBrowserChanged demo_classes)

subsection \<open>captureSlice: replace or append\<close>

lemma find_recorded_None:
  "(find_recorded oi es i = None) = no_match oi es"
  by (induction es arbitrary: i) (auto simp: Let_def no_match_def)

lemma find_recorded_first:
  "j < length es \<Longrightarrow> dn_attribute (snd (es ! j)) ORIGINAL_IMAGE_INDEX = oi \<Longrightarrow>
   \<forall>k < j. dn_attribute (snd (es ! k)) ORIGINAL_IMAGE_INDEX \<noteq> oi \<Longrightarrow>
   find_recorded oi es i = Some (i + j)"
proof (induction es arbitrary: i j)
  case Nil
  then show ?case by simp
next
  case (Cons e es)
  show ?case
  proof (cases j)
    case 0
    with Cons.prems show ?thesis by (simp add: Let_def)
  next
    case (Suc j')
    from Cons.prems(3) Suc have head: "dn_attribute (snd e) ORIGINAL_IMAGE_INDEX \<noteq> oi"
      by auto
    from Cons.prems(3) Suc
    have rest: "\<forall>k < j'. dn_attribute (snd (es ! k)) ORIGINAL_IMAGE_INDEX \<noteq> oi"
      by auto
    from Cons.prems(1,2) Suc have "j' < length es" "dn_attribute (snd (es ! j')) ORIGINAL_IMAGE_INDEX = oi"
      by auto
    from Cons.IH [OF this rest, of "Suc i"] head Suc show ?thesis
      by (auto simp: Let_def)
  qed
qed

lemma find_recorded_earliest:
  "earliest_match oi es i \<Longrightarrow> find_recorded oi es 0 = Some i"
  using find_recorded_first [of i es oi 0] by (simp add: earliest_match_def)

lemma GetItemNumberFromIndexValue_distinct:
  "distinct (map fst es) \<Longrightarrow> j < length es \<Longrightarrow> GetItemNumberFromIndexValue es (fst (es ! j)) = Some j"
proof (induction es arbitrary: j)
  case Nil
  then show ?case by simp
next
  case (Cons e es)
  show ?case
  proof (cases j)
    case 0
    then show ?thesis by simp
  next
    case (Suc j')
    with Cons.prems have "j' < length es" "distinct (map fst es)" by auto
    moreover from Cons.prems Suc have "fst e \<noteq> fst (es ! j')"
      by (auto simp: image_iff)
    ultimately show ?thesis using Cons.IH [of j'] Suc by simp
  qed
qed

lemma indexEntries_load_data_node:
  "indexEntries (nodes (fold load_data_node ps sc) m) = indexEntries (nodes sc m)"
  by (induction ps arbitrary: sc) (simp_all add: load_data_node_def)

lemma indexEntries_SetDataNodeAtValue_stored:
  "indexEntries (nodes (SetDataNodeAtValue h s n v sc) s) =
     (case GetItemNumberFromIndexValue (indexEntries (nodes sc s)) v of
        Some j \<Rightarrow> (indexEntries (nodes sc s))[j := (v, copy_of_node (nodes sc n))]
      | None \<Rightarrow> take (GetInsertPosition h (indexEntries (nodes sc s)) v) (indexEntries (nodes sc s))
                 @ [(v, copy_of_node (nodes sc n))]
                 @ drop (GetInsertPosition h (indexEntries (nodes sc s)) v) (indexEntries (nodes sc s)))"
  by (simp add: SetDataNodeAtValue_def Let_def indexEntries_load_data_node split: option.splits)

lemma indexEntries_SetDataNodeAtValue:
  "distinct (map fst (indexEntries (nodes sc s))) \<Longrightarrow> j < length (indexEntries (nodes sc s)) \<Longrightarrow>
   indexEntries (nodes (SetDataNodeAtValue h s n (fst (indexEntries (nodes sc s) ! j)) sc) s)
     = (indexEntries (nodes sc s))[j := (fst (indexEntries (nodes sc s) ! j), copy_of_node (nodes sc n))]"
  by (simp add: indexEntries_SetDataNodeAtValue_stored GetItemNumberFromIndexValue_distinct)

lemma demo_nodes:
  "nodes demo_scene 2 = demo_node\<lparr>className := ''vtkMRMLSequenceBrowserNode'', nodeName := ''Output'',
                         proxySequences := [(3, 5), (4, 6)]\<rparr>"
  "indexEntries (nodes demo_scene 5) = [(''0'', demo_entry (Some ''0'')), (''1'', demo_entry (Some ''2''))]"
  "indexEntries (nodes demo_scene 6) = [(''0'', demo_frame [10]), (''1'', demo_frame [30])]"
  "attribute (nodes demo_scene 3) = Map.empty"
  by (simp_all add: demo_scene_def demo_node_def)

text \<open>
  C1, as amended. For every call to \<^verbatim>\<open>captureSlice\<close> in which the sequence browser yields
  sequence nodes for both the input image and the segmentation: if some data node stored
  in the segmentation sequence has the same \<open>ORIGINAL_IMAGE_INDEX\<close> attribute value as the
  current segmentation (two absent attributes are the same value), and the input image's
  sequence has, at the position of the earliest such entry, the index value that the
  segmentation sequence has there (its index values being distinct), then that entry is
  replaced by a copy of the segmentation and every other entry, and the number of
  entries, stay as they were: the segmentation is written with \<^verbatim>\<open>SetDataNodeAtValue\<close> at
  the index value read from the input image's sequence at that position. If no stored
  data node has the same attribute value, the only effect is \<^verbatim>\<open>SaveProxyNodesState\<close> on
  the browser.
\<close>

theorem captureSlice_replaces_or_appends:
  assumes "GetSequenceNode (mrmlScene w) browser inputImage = Some imgSeq"
      and "GetSequenceNode (mrmlScene w) browser (Some seg) = Some segSeq"
      and "es = indexEntries (nodes (mrmlScene w) segSeq)"
      and "originalIndex = GetAttribute (mrmlScene w) seg ORIGINAL_IMAGE_INDEX"
  shows "(no_match originalIndex es
          \<longrightarrow> captureSlice h w browser seg inputImage
                = Returned (on_scene (\<lambda>s. SaveProxyNodesState h s browser) w))
       \<and> (earliest_match originalIndex es i
          \<longrightarrow> captureSlice h w browser seg inputImage
                = Returned (on_scene (SetDataNodeAtValue h segSeq seg
                              (GetNthIndexValue (mrmlScene w) imgSeq i)) w)
              \<and> (distinct (map fst es) \<and> GetNthIndexValue (mrmlScene w) imgSeq i = fst (es ! i)
                  \<longrightarrow> indexEntries (nodes (mrmlScene (world_of (captureSlice h w browser seg inputImage))) segSeq)
                        = es[i := (fst (es ! i), copy_of_node (nodes (mrmlScene w) seg))]))"
proof (intro conjI impI)
  assume "no_match originalIndex es"
  then have "find_recorded originalIndex es 0 = None"
    by (simp add: find_recorded_None)
  with assms show "captureSlice h w browser seg inputImage
                = Returned (on_scene (\<lambda>s. SaveProxyNodesState h s browser) w)"
    by (simp add: captureSlice_def Let_def)
next
  assume m: "earliest_match originalIndex es i"
  then have "find_recorded originalIndex es 0 = Some i"
    by (rule find_recorded_earliest)
  with assms show call: "captureSlice h w browser seg inputImage
                  = Returned (on_scene (SetDataNodeAtValue h segSeq seg
                                (GetNthIndexValue (mrmlScene w) imgSeq i)) w)"
    by (simp add: captureSlice_def Let_def)
  assume al: "distinct (map fst es) \<and> GetNthIndexValue (mrmlScene w) imgSeq i = fst (es ! i)"
  from m have "i < length es" by (simp add: earliest_match_def)
  with al call assms(3) show "indexEntries (nodes (mrmlScene (world_of (captureSlice h w browser seg inputImage))) segSeq)
                          = es[i := (fst (es ! i), copy_of_node (nodes (mrmlScene w) seg))]"
    by (simp add: world_of_def on_scene_def indexEntries_SetDataNodeAtValue)
qed

theorem captureSlice_replaces_or_appends_witness:
  "captureSlice demo_host demo_world 2 3 (Some 4)
     = Returned (on_scene (\<lambda>s. SaveProxyNodesState demo_host s 2) demo_world)
   \<and> indexEntries (nodes (mrmlScene (world_of (captureSlice demo_host
        (on_scene (SetAttribute 3 ORIGINAL_IMAGE_INDEX ''2'') demo_world) 2 3 (Some 4)))) 5)
     = [(''0'', demo_entry (Some ''0'')),
        (''1'', copy_of_node (nodes (SetAttribute 3 ORIGINAL_IMAGE_INDEX ''2'' demo_scene) 3))]"
proof -
  let ?w2 = "on_scene (SetAttribute 3 ORIGINAL_IMAGE_INDEX ''2'') demo_world"
  have s1: "GetSequenceNode (mrmlScene demo_world) 2 (Some 4) = Some 6"
           "GetSequenceNode (mrmlScene demo_world) 2 (Some 3) = Some 5"
    by (simp_all add: GetSequenceNode_def demo_world_def demo_nodes)
  have n1: "no_match (GetAttribute (mrmlScene demo_world) 3 ORIGINAL_IMAGE_INDEX)
              (indexEntries (nodes (mrmlScene demo_world) 5))"
    by (simp add: no_match_def demo_world_def demo_nodes GetAttribute_def demo_entry_def)
  have sc2: "mrmlScene ?w2 = SetAttribute 3 ORIGINAL_IMAGE_INDEX ''2'' demo_scene"
    by (simp add: on_scene_def demo_world_def)
  have nodes2: "nodes (mrmlScene ?w2) 2 = nodes demo_scene 2" "nodes (mrmlScene ?w2) 5 = nodes demo_scene 5"
      "nodes (mrmlScene ?w2) 6 = nodes demo_scene 6"
    by (simp_all add: sc2 SetAttribute_def)
  have s2: "GetSequenceNode (mrmlScene ?w2) 2 (Some 4) = Some 6"
           "GetSequenceNode (mrmlScene ?w2) 2 (Some 3) = Some 5"
    by (simp_all add: GetSequenceNode_def nodes2 demo_nodes)
  have a2: "GetAttribute (mrmlScene ?w2) 3 ORIGINAL_IMAGE_INDEX = Some ''2''"
    by (simp add: sc2 GetAttribute_def SetAttribute_def)
  have m2: "earliest_match (GetAttribute (mrmlScene ?w2) 3 ORIGINAL_IMAGE_INDEX)
              (indexEntries (nodes (mrmlScene ?w2) 5)) 1"
    by (simp add: a2 nodes2 demo_nodes earliest_match_def demo_entry_def)
  have al: "distinct (map fst (indexEntries (nodes (mrmlScene ?w2) 5)))
            \<and> GetNthIndexValue (mrmlScene ?w2) 6 1 = fst (indexEntries (nodes (mrmlScene ?w2) 5) ! 1)"
    by (simp add: nodes2 demo_nodes GetNthIndexValue_def)
  from captureSlice_replaces_or_appends [OF s1 refl refl, where h = demo_host] n1
  have A: "captureSlice demo_host demo_world 2 3 (Some 4)
     = Returned (on_scene (\<lambda>s. SaveProxyNodesState demo_host s 2) demo_world)"
    by blast
  from captureSlice_replaces_or_appends [OF s2 refl refl, where h = demo_host and i = 1] m2 al
  have "indexEntries (nodes (mrmlScene (world_of (captureSlice demo_host ?w2 2 3 (Some 4)))) 5)
     = (indexEntries (nodes (mrmlScene ?w2) 5))
         [1 := (fst (indexEntries (nodes (mrmlScene ?w2) 5) ! 1), copy_of_node (nodes (mrmlScene ?w2) 3))]"
    by blast
  then have B: "indexEntries (nodes (mrmlScene (world_of (captureSlice demo_host ?w2 2 3 (Some 4)))) 5)
     = [(''0'', demo_entry (Some ''0'')),
        (''1'', copy_of_node (nodes (SetAttribute 3 ORIGINAL_IMAGE_INDEX ''2'' demo_scene) 3))]"
    by (simp add: nodes2 demo_nodes) (simp add: sc2)
  from A B show ?thesis by simp
qed

text \<open>
  C1 as stated fails on two inputs. With no \<open>ORIGINAL_IMAGE_INDEX\<close> attribute on the
  segmentation and none on the one stored data node, no stored attribute equals the
  current one as a string, yet the stored entry is overwritten and nothing is appended.
  With the string 5 on both, but the stored item at index value 7 and the volume's
  sequence at index value 0 in that position, the matching entry is kept as it is and a
  second entry is added.
\<close>

theorem captureSlice_counterexample:
  "GetAttribute (mrmlScene absent_index_world) 3 ORIGINAL_IMAGE_INDEX = None
   \<and> map (\<lambda>e. dn_attribute (snd e) ORIGINAL_IMAGE_INDEX) (indexEntries (nodes (mrmlScene absent_index_world) 5))
       = [None]
   \<and> indexEntries (nodes (mrmlScene (world_of (captureSlice demo_host absent_index_world 2 3 (Some 4)))) 5)
       = [(''0'', copy_of_node (nodes demo_scene 3))]
   \<and> GetAttribute (mrmlScene shifted_index_world) 3 ORIGINAL_IMAGE_INDEX = Some ''5''
   \<and> indexEntries (nodes (mrmlScene shifted_index_world) 5) = [(''7'', demo_entry (Some ''5''))]
   \<and> indexEntries (nodes (mrmlScene (world_of (captureSlice demo_host shifted_index_world 2 3 (Some 4)))) 5)
       = [(''0'', copy_of_node (nodes (mrmlScene shifted_index_world) 3)), (''7'', demo_entry (Some ''5''))]"
  by (simp add: absent_index_world_def shifted_index_world_def demo_world_def demo_nodes
      GetAttribute_def captureSlice_def GetSequenceNode_def Let_def demo_entry_def
      world_of_def on_scene_def indexEntries_SetDataNodeAtValue_stored GetNthIndexValue_def
      demo_host_def demo_position_def demo_nat_def demo_digit_def)

subsection \<open>onCaptureButton, onSkipButton and onConvertButton\<close>


lemma world_of_simps [simp]: "world_of (Returned w) = w" "world_of (Raised e w) = w"
  by (simp_all add: world_of_def)

lemma captureSlice_returns:
  "captureSlice h w b seg (Some img) = Returned (world_of (captureSlice h w b seg (Some img)))"
  by (simp add: captureSlice_def world_of_def Let_def split: option.splits)

lemma emitted_captureSlice:
  "messageBoxes (world_of (captureSlice h w b seg img)) = messageBoxes w"
  "pngFiles (world_of (captureSlice h w b seg img)) = pngFiles w"
  "widgets (world_of (captureSlice h w b seg img)) = widgets w"
  by (simp_all add: captureSlice_def world_of_def Let_def on_scene_def logging_at_def split: option.splits)

lemma messageBoxes_advance:
  "messageBoxes (advance h b n w) = messageBoxes w @
     (if snd (SelectNextItem h (mrmlScene w) b n) < GetSelectedItemNumber (mrmlScene w) b
      then [''Sequence wrapped around!''] else [])"
  by (simp add: advance_def wrapped_around_def logging_at_def Let_def split: prod.splits)

lemma mrmlScene_advance:
  "mrmlScene (advance h b n w) = fst (SelectNextItem h (mrmlScene w) b n)"
  by (simp add: advance_def wrapped_around_def logging_at_def Let_def split: prod.splits)


lemma segments_SetAttribute: "segments (nodes (SetAttribute m k v sc) n) = segments (nodes sc n)"
  by (simp add: SetAttribute_def)

lemma segments_eraseCurrentSegmentation:
  "segments (nodes (eraseCurrentSegmentation seg sc) seg) = map (map (\<lambda>_. 0)) (segments (nodes sc seg))"
  by (simp add: eraseCurrentSegmentation_def)

text \<open>
  The steps of \<^verbatim>\<open>onCaptureButton\<close> when its three checks pass and an input volume is
  selected, so that \<^verbatim>\<open>captureSlice\<close> returns.
\<close>

lemma onCaptureButton_steps:
  assumes "inputSequenceBrowserSelector (widgets w) = Some ib"
      and "inputSegmentationSelector (widgets w) = Some seg"
      and "segmentationBrowserSelector (widgets w) = Some ob"
      and "inputVolumeSelector (widgets w) = Some img"
      and "a = GetAttribute (mrmlScene w) seg ORIGINAL_IMAGE_INDEX"
      and "numSkip = skipImagesSpinBox (widgets w)"
      and "captured = captureSlice h
             (on_scene (SetAttribute seg ORIGINAL_IMAGE_INDEX
                (str_int (GetSelectedItemNumber (mrmlScene w) ib))) w) ob seg (Some img)"
      and "cleared = on_scene (SetAttribute seg ORIGINAL_IMAGE_INDEX ''None'')
             (on_scene (eraseCurrentSegmentation seg) (world_of captured))"
  shows "(if a = None \<or> a = Some ''None'' \<or> a = Some [] \<or> activeBrowserNode w = Some ib
          then captured = Returned (world_of captured)
               \<and> GetAttribute (mrmlScene cleared) seg ORIGINAL_IMAGE_INDEX = Some ''None''
               \<and> segments (nodes (mrmlScene cleared) seg)
                   = map (map (\<lambda>_. 0)) (segments (nodes (mrmlScene (world_of captured)) seg))
               \<and> onCaptureButton h w = Returned (advance h ib numSkip cleared)
               \<and> mrmlScene (world_of (onCaptureButton h w))
                   = fst (SelectNextItem h (mrmlScene cleared) ib numSkip)
          else captureSlice h w ob seg (Some img) = Returned (world_of (captureSlice h w ob seg (Some img)))
               \<and> onCaptureButton h w = Returned (advance h ob 1 (world_of (captureSlice h w ob seg (Some img))))
               \<and> mrmlScene (world_of (onCaptureButton h w))
                   = fst (SelectNextItem h (mrmlScene (world_of (captureSlice h w ob seg (Some img)))) ob 1))"
proof (cases "a = None \<or> a = Some ''None'' \<or> a = Some [] \<or> activeBrowserNode w = Some ib")
  case True
  have ret: "captured = Returned (world_of captured)"
    unfolding assms(7) by (rule captureSlice_returns)
  have attr: "GetAttribute (mrmlScene cleared) seg ORIGINAL_IMAGE_INDEX = Some ''None''"
    by (simp add: assms(8) on_scene_def GetAttribute_SetAttribute)
  have segs: "segments (nodes (mrmlScene cleared) seg)
                   = map (map (\<lambda>_. 0)) (segments (nodes (mrmlScene (world_of captured)) seg))"
    by (simp add: assms(8) on_scene_def segments_SetAttribute segments_eraseCurrentSegmentation)
  from True assms(5) have cond: "(if activeBrowserNode w = Some ib then None
             else GetAttribute (mrmlScene w) seg ORIGINAL_IMAGE_INDEX) = None
          \<or> (if activeBrowserNode w = Some ib then None
             else GetAttribute (mrmlScene w) seg ORIGINAL_IMAGE_INDEX) = Some ''None''
          \<or> (if activeBrowserNode w = Some ib then None
             else GetAttribute (mrmlScene w) seg ORIGINAL_IMAGE_INDEX) = Some []"
    by auto
  have run: "onCaptureButton h w = Returned (advance h ib numSkip cleared)"
    unfolding onCaptureButton_def Let_def assms(1-4) option.case if_P [OF cond]
    by (cases captured) (use ret in \<open>simp_all add: assms(6-8)\<close>)
  from ret attr segs run show ?thesis
    unfolding if_P [OF True] by (simp add: mrmlScene_advance)
next
  case False
  from False assms(5) have cond: "\<not> ((if activeBrowserNode w = Some ib then None
             else GetAttribute (mrmlScene w) seg ORIGINAL_IMAGE_INDEX) = None
          \<or> (if activeBrowserNode w = Some ib then None
             else GetAttribute (mrmlScene w) seg ORIGINAL_IMAGE_INDEX) = Some ''None''
          \<or> (if activeBrowserNode w = Some ib then None
             else GetAttribute (mrmlScene w) seg ORIGINAL_IMAGE_INDEX) = Some [])"
    by auto
  have ret: "captureSlice h w ob seg (Some img) = Returned (world_of (captureSlice h w ob seg (Some img)))"
    by (rule captureSlice_returns)
  have run: "onCaptureButton h w = Returned (advance h ob 1 (world_of (captureSlice h w ob seg (Some img))))"
    unfolding onCaptureButton_def Let_def assms(1-4) option.case if_not_P [OF cond]
    by (cases "captureSlice h w ob seg (Some img)") (use ret in simp_all)
  from ret run show ?thesis
    unfolding if_not_P [OF False] by (simp add: mrmlScene_advance)
qed


text \<open>
  C2 at its failing inputs. With the input browser, the segmentation, the output browser
  and the input volume all selected, and the input browser active in the toolbar, but no
  sequence kept by the output browser for the volume, \<^verbatim>\<open>onCaptureButton\<close> returns
  normally: \<^verbatim>\<open>captureSlice\<close> logs its error and stores nothing, the segmentation's
  sequence holds what it held, and yet the canvas is erased, the attribute is reset to
  the string \<open>None\<close> and the input browser is advanced. With no input volume selected
  the callback raises \<^verbatim>\<open>AttributeError\<close> inside \<^verbatim>\<open>captureSlice\<close>, before anything is
  logged: the attribute stays at the input browser's item number, the canvas is not
  erased and the browser is not advanced.
\<close>

theorem onCaptureButton_erases_uncaptured:
  "inputSequenceBrowserSelector (widgets no_volume_sequence_world) = Some 1
   \<and> inputSegmentationSelector (widgets no_volume_sequence_world) = Some 3
   \<and> segmentationBrowserSelector (widgets no_volume_sequence_world) = Some 2
   \<and> inputVolumeSelector (widgets no_volume_sequence_world) = Some 4
   \<and> activeBrowserNode no_volume_sequence_world = Some 1
   \<and> raised_error (onCaptureButton demo_host no_volume_sequence_world) = None
   \<and> logged (world_of (onCaptureButton demo_host no_volume_sequence_world))
       = [(ERROR, ''Sequence not found for input image: Image_Image''),
          (DEBUG, ''Sequence wrapped around!'')]
   \<and> map (\<lambda>e. (fst e, dn_segments (snd e)))
         (indexEntries (nodes (mrmlScene no_volume_sequence_world) 5))
       = [(''0'', [[1, 1]]), (''1'', [[1, 1]])]
   \<and> map (\<lambda>e. (fst e, dn_segments (snd e)))
         (indexEntries (nodes (mrmlScene (world_of (onCaptureButton demo_host no_volume_sequence_world))) 5))
       = [(''0'', [[1, 1]]), (''1'', [[1, 1]])]
   \<and> segments (nodes (mrmlScene no_volume_sequence_world) 3) = [[0, 1, 1]]
   \<and> segments (nodes (mrmlScene (world_of (onCaptureButton demo_host no_volume_sequence_world))) 3)
       = [[0, 0, 0]]
   \<and> GetAttribute (mrmlScene (world_of (onCaptureButton demo_host no_volume_sequence_world))) 3
        ORIGINAL_IMAGE_INDEX = Some ''None''
   \<and> selectedItemNumber (nodes (mrmlScene no_volume_sequence_world) 1) = 2
   \<and> selectedItemNumber (nodes (mrmlScene (world_of (onCaptureButton demo_host no_volume_sequence_world))) 1) = 0
   \<and> inputVolumeSelector (widgets no_volume_world) = None
   \<and> raised_error (onCaptureButton demo_host no_volume_world) = Some AttributeError
   \<and> logged (world_of (onCaptureButton demo_host no_volume_world)) = []
   \<and> segments (nodes (mrmlScene (world_of (onCaptureButton demo_host no_volume_world))) 3) = [[0, 1, 1]]
   \<and> GetAttribute (mrmlScene (world_of (onCaptureButton demo_host no_volume_world))) 3
        ORIGINAL_IMAGE_INDEX = Some ''2''
   \<and> selectedItemNumber (nodes (mrmlScene (world_of (onCaptureButton demo_host no_volume_world))) 1) = 2"
  by code_simp

lemma messageBoxes_advance_box:
  "messageBoxes (advance h b n w) = messageBoxes w @ box_if_smaller h b n w"
  by (simp add: messageBoxes_advance box_if_smaller_def)

text \<open>
  C3. In \<^verbatim>\<open>onCaptureButton\<close> and \<^verbatim>\<open>onSkipButton\<close>, once the relevant sequence browser has
  been advanced, the message box \<open>Sequence wrapped around!\<close> is shown if and only if the
  item number \<^verbatim>\<open>SelectNextItem\<close> returned as newly selected is strictly smaller than the
  item number that was selected before advancing: the boxes after the callback are
  those before it followed by \<open>box_if_smaller\<close> for the browser advanced (the input browser
  by the skip number, or the output browser by one) in the state it was advanced in.
\<close>

theorem wraparound_detected:
  assumes "inputSequenceBrowserSelector (widgets w) = Some ib"
      and "inputSegmentationSelector (widgets w) = Some seg"
      and "a = GetAttribute (mrmlScene w) seg ORIGINAL_IMAGE_INDEX"
      and "numSkip = skipImagesSpinBox (widgets w)"
      and "captured = captureSlice h
             (on_scene (SetAttribute seg ORIGINAL_IMAGE_INDEX
                (str_int (GetSelectedItemNumber (mrmlScene w) ib))) w) ob seg (Some img)"
      and "cleared = on_scene (SetAttribute seg ORIGINAL_IMAGE_INDEX ''None'')
             (on_scene (eraseCurrentSegmentation seg) (world_of captured))"
      and "overwritten = world_of (captureSlice h w ob seg (Some img))"
      and "erased = on_scene (eraseCurrentSegmentation seg) w"
  shows "(segmentationBrowserSelector (widgets w) = Some ob \<and> inputVolumeSelector (widgets w) = Some img
          \<longrightarrow> messageBoxes (world_of (onCaptureButton h w))
                = messageBoxes w @
                  (if a = None \<or> a = Some ''None'' \<or> a = Some [] \<or> activeBrowserNode w = Some ib
                   then box_if_smaller h ib numSkip cleared
                   else box_if_smaller h ob 1 overwritten))
       \<and> (activeBrowserNode w = Some ob \<and> segmentationBrowserSelector (widgets w) = Some ob
          \<longrightarrow> onSkipButton h w = Returned (advance h ob 1 w)
              \<and> messageBoxes (world_of (onSkipButton h w)) = messageBoxes w @ box_if_smaller h ob 1 w)
       \<and> (activeBrowserNode w \<noteq> segmentationBrowserSelector (widgets w)
          \<longrightarrow> onSkipButton h w = Returned (advance h ib numSkip erased)
              \<and> messageBoxes (world_of (onSkipButton h w))
                  = messageBoxes w @ box_if_smaller h ib numSkip erased)"
proof (intro conjI impI)
  assume sel: "segmentationBrowserSelector (widgets w) = Some ob \<and> inputVolumeSelector (widgets w) = Some img"
  note split = onCaptureButton_steps [OF assms(1,2) conjunct1 [OF sel] conjunct2 [OF sel]
      assms(3,4,5,6)]
  show "messageBoxes (world_of (onCaptureButton h w))
                = messageBoxes w @
                  (if a = None \<or> a = Some ''None'' \<or> a = Some [] \<or> activeBrowserNode w = Some ib
                   then box_if_smaller h ib numSkip cleared
                   else box_if_smaller h ob 1 overwritten)"
  proof (cases "a = None \<or> a = Some ''None'' \<or> a = Some [] \<or> activeBrowserNode w = Some ib")
    case True
    from split [unfolded if_P [OF True]]
    have run: "onCaptureButton h w = Returned (advance h ib numSkip cleared)"
      by blast
    have "messageBoxes cleared = messageBoxes w"
      by (simp add: assms(5,6) on_scene_def emitted_captureSlice)
    with run show ?thesis
      unfolding if_P [OF True] by (simp add: messageBoxes_advance_box)
  next
    case False
    from split [unfolded if_not_P [OF False]]
    have run: "onCaptureButton h w = Returned (advance h ob 1 overwritten)"
      unfolding assms(7) by blast
    have "messageBoxes overwritten = messageBoxes w"
      by (simp add: assms(7) emitted_captureSlice)
    with run show ?thesis
      unfolding if_not_P [OF False] by (simp add: messageBoxes_advance_box)
  qed
next
  assume act: "activeBrowserNode w = Some ob \<and> segmentationBrowserSelector (widgets w) = Some ob"
  then show run: "onSkipButton h w = Returned (advance h ob 1 w)"
    by (simp add: onSkipButton_def Let_def assms(1,2))
  then show "messageBoxes (world_of (onSkipButton h w)) = messageBoxes w @ box_if_smaller h ob 1 w"
    by (simp add: messageBoxes_advance_box)
next
  assume act: "activeBrowserNode w \<noteq> segmentationBrowserSelector (widgets w)"
  then show run: "onSkipButton h w = Returned (advance h ib numSkip erased)"
    by (simp add: onSkipButton_def Let_def assms(1,2,4,8))
  then show "messageBoxes (world_of (onSkipButton h w))
                  = messageBoxes w @ box_if_smaller h ib numSkip erased"
    by (simp add: messageBoxes_advance_box assms(8) on_scene_def)
qed

lemma demo_selected:
  "inputSequenceBrowserSelector (widgets demo_world) = Some 1"
  "inputSegmentationSelector (widgets demo_world) = Some 3"
  "segmentationBrowserSelector (widgets demo_world) = Some 2"
  "inputVolumeSelector (widgets demo_world) = Some 4"
  by (simp_all add: demo_world_def demo_ui_def)

lemma overwrite_selected:
  "inputSequenceBrowserSelector (widgets overwrite_world) = Some 1"
  "inputSegmentationSelector (widgets overwrite_world) = Some 3"
  "segmentationBrowserSelector (widgets overwrite_world) = Some 2"
  "inputVolumeSelector (widgets overwrite_world) = Some 4"
  by (simp_all add: overwrite_world_def demo_world_def demo_ui_def)

theorem wraparound_detected_witness:
  "messageBoxes (world_of (onCaptureButton demo_host demo_world)) = [''Sequence wrapped around!'']
   \<and> messageBoxes (world_of (onCaptureButton demo_host overwrite_world)) = []
   \<and> messageBoxes (world_of (onSkipButton demo_host overwrite_world)) = []
   \<and> messageBoxes (world_of (onSkipButton demo_host demo_world)) = [''Sequence wrapped around!'']"
proof -
  have act: "segmentationBrowserSelector (widgets demo_world) = Some 2 \<and> inputVolumeSelector (widgets demo_world) = Some 4"
    "activeBrowserNode demo_world \<noteq> segmentationBrowserSelector (widgets demo_world)"
    "segmentationBrowserSelector (widgets overwrite_world) = Some 2 \<and> inputVolumeSelector (widgets overwrite_world) = Some 4"
    "activeBrowserNode overwrite_world = Some 2 \<and> segmentationBrowserSelector (widgets overwrite_world) = Some 2"
    by (simp_all add: demo_selected overwrite_selected) (simp_all add: demo_world_def overwrite_world_def demo_ui_def)
  note d = wraparound_detected [OF demo_selected(1,2) refl refl refl refl refl refl,
      where h = demo_host and ob = 2 and img = 4]
  note v = wraparound_detected [OF overwrite_selected(1,2) refl refl refl refl refl refl,
      where h = demo_host and ob = 2 and img = 4]
  from d act(1) have A: "messageBoxes (world_of (onCaptureButton demo_host demo_world))
      = messageBoxes demo_world @
        (if GetAttribute (mrmlScene demo_world) 3 ORIGINAL_IMAGE_INDEX = None
            \<or> GetAttribute (mrmlScene demo_world) 3 ORIGINAL_IMAGE_INDEX = Some ''None''
            \<or> GetAttribute (mrmlScene demo_world) 3 ORIGINAL_IMAGE_INDEX = Some []
            \<or> activeBrowserNode demo_world = Some 1
         then box_if_smaller demo_host 1 (skipImagesSpinBox (widgets demo_world))
                (on_scene (SetAttribute 3 ORIGINAL_IMAGE_INDEX ''None'')
                  (on_scene (eraseCurrentSegmentation 3) (world_of (captureSlice demo_host
                    (on_scene (SetAttribute 3 ORIGINAL_IMAGE_INDEX
                      (str_int (GetSelectedItemNumber (mrmlScene demo_world) 1))) demo_world) 2 3 (Some 4)))))
         else box_if_smaller demo_host 2 1 (world_of (captureSlice demo_host demo_world 2 3 (Some 4))))"
    by blast
  from v act(3) have B: "messageBoxes (world_of (onCaptureButton demo_host overwrite_world))
      = messageBoxes overwrite_world @
        (if GetAttribute (mrmlScene overwrite_world) 3 ORIGINAL_IMAGE_INDEX = None
            \<or> GetAttribute (mrmlScene overwrite_world) 3 ORIGINAL_IMAGE_INDEX = Some ''None''
            \<or> GetAttribute (mrmlScene overwrite_world) 3 ORIGINAL_IMAGE_INDEX = Some []
            \<or> activeBrowserNode overwrite_world = Some 1
         then box_if_smaller demo_host 1 (skipImagesSpinBox (widgets overwrite_world))
                (on_scene (SetAttribute 3 ORIGINAL_IMAGE_INDEX ''None'')
                  (on_scene (eraseCurrentSegmentation 3) (world_of (captureSlice demo_host
                    (on_scene (SetAttribute 3 ORIGINAL_IMAGE_INDEX
                      (str_int (GetSelectedItemNumber (mrmlScene overwrite_world) 1))) overwrite_world) 2 3 (Some 4)))))
         else box_if_smaller demo_host 2 1 (world_of (captureSlice demo_host overwrite_world 2 3 (Some 4))))"
    by blast
  from v act(4) have C: "messageBoxes (world_of (onSkipButton demo_host overwrite_world))
      = messageBoxes overwrite_world @ box_if_smaller demo_host 2 1 overwrite_world"
    by blast
  from d act(2) have D: "messageBoxes (world_of (onSkipButton demo_host demo_world))
      = messageBoxes demo_world @ box_if_smaller demo_host 1 (skipImagesSpinBox (widgets demo_world))
          (on_scene (eraseCurrentSegmentation 3) demo_world)"
    by blast
  show ?thesis
    unfolding A B C D by code_simp
qed

text \<open>
  C7, as amended. Each callback checks its own required selections before proceeding:
  \<^verbatim>\<open>onCaptureButton\<close> the input browser, the segmentation and the output segmentation
  browser; \<^verbatim>\<open>onSkipButton\<close> the input browser and the segmentation; \<^verbatim>\<open>onConvertButton\<close>
  the segmentation browser, the segmentation and the ultrasound volume. When one of them
  is null the callback logs one error record and returns: the state is otherwise the one
  it started in, so no logic operation ran and the scene is unchanged.
\<close>

theorem null_selection_checks:
  assumes "ib = inputSequenceBrowserSelector (widgets w)"
      and "seg = inputSegmentationSelector (widgets w)"
      and "ob = segmentationBrowserSelector (widgets w)"
      and "us = inputVolumeSelector (widgets w)"
  shows "(ib = None \<or> seg = None \<or> ob = None
          \<longrightarrow> onCaptureButton h w = Returned (logging_at ERROR
                 (if ib = None then ''No browser node selected!''
                  else if seg = None then ''No segmentation selected!''
                  else ''No segmentation sequence browser selected!'') w))
       \<and> (ib = None \<or> seg = None
          \<longrightarrow> onSkipButton h w = Returned (logging_at ERROR
                 (if ib = None then ''No browser node selected!''
                  else ''No segmentation selected!'') w))
       \<and> (ob = None \<or> seg = None \<or> us = None
          \<longrightarrow> onConvertButton h w = Returned (logging_at ERROR
                 (if ob = None then ''No browser node selected!''
                  else if seg = None then ''No segmentation selected!''
                  else ''No ultrasound volume selected!'') w))"
  unfolding assms
  by (auto simp add: onCaptureButton_def onSkipButton_def onConvertButton_def Let_def
      split: option.splits)

theorem null_selection_checks_witness:
  "onCaptureButton demo_host no_segmentation_world
     = Returned (logging_at ERROR ''No segmentation selected!'' no_segmentation_world)
   \<and> onSkipButton demo_host no_input_browser_world
     = Returned (logging_at ERROR ''No browser node selected!'' no_input_browser_world)
   \<and> onConvertButton demo_host no_volume_world
     = Returned (logging_at ERROR ''No ultrasound volume selected!'' no_volume_world)"
  using null_selection_checks [OF refl refl refl refl, of no_segmentation_world demo_host]
        null_selection_checks [OF refl refl refl refl, of no_input_browser_world demo_host]
        null_selection_checks [OF refl refl refl refl, of no_volume_world demo_host]
  by (simp add: no_segmentation_world_def no_input_browser_world_def no_volume_world_def
      demo_world_def demo_ui_def)

text \<open>
  C7 as stated fails for \<^verbatim>\<open>onSkipButton\<close> with a null output segmentation browser: no
  error is logged, the canvas is erased and the input browser is advanced.
\<close>

theorem onSkipButton_counterexample:
  "segmentationBrowserSelector (widgets no_output_browser_world) = None
   \<and> logged (world_of (onSkipButton demo_host no_output_browser_world))
       = [(DEBUG, ''Sequence wrapped around!'')]
   \<and> segments (nodes (mrmlScene no_output_browser_world) 3) = [[0, 1, 1]]
   \<and> segments (nodes (mrmlScene (world_of (onSkipButton demo_host no_output_browser_world))) 3) = [[0, 0, 0]]
   \<and> selectedItemNumber (nodes (mrmlScene no_output_browser_world) 1) = 2
   \<and> selectedItemNumber (nodes (mrmlScene (world_of (onSkipButton demo_host no_output_browser_world))) 1) = 0"
  by code_simp

subsection \<open>exportPngSequence and onExportButton\<close>


lemma pngFiles_write_pair:
  "pngFiles (write_pair h img seg segSeq lm folder base i w) = pngFiles w @
     [(os_path_join h folder (segmentationFileName base i),
         vtkImageCast h (imageData (nodes (labelmap_exported h seg lm img (mrmlScene w)) lm))),
      (os_path_join h folder (ultrasoundFileName base i),
         vtkImageCast h (imageData (nodes (labelmap_exported h seg lm img (mrmlScene w)) img)))]"
  by (simp add: write_pair_def Let_def)

lemma logged_write_pair:
  "logged (write_pair h img seg segSeq lm folder base i w) = logged w"
  by (simp add: write_pair_def Let_def)

lemma state_before_item_Suc:
  "state_before_item h w img imgSeq seg segSeq folder base (Suc i) =
     export_item h img imgSeq seg segSeq (snd (AddNewNodeByClass h (mrmlScene w) ''vtkMRMLLabelMapVolumeNode''))
       folder base i (state_before_item h w img imgSeq seg segSeq folder base i)"
  by (simp add: state_before_item_def Let_def split: prod.splits)

lemma pngFiles_write_pair_rendered:
  "pngFiles (write_pair h img seg segSeq lm folder base i w)
     = pngFiles w @ rendered_pair h img seg lm folder base i (mrmlScene w)"
  by (simp add: pngFiles_write_pair rendered_pair_def segmentationFileName_def ultrasoundFileName_def)

lemma exportPngSequence_state_before_item:
  "os_path_exists h folder \<Longrightarrow>
   exportPngSequence h w img imgSeq seg segSeq folder base =
     state_before_item h w img imgSeq seg segSeq folder base
       (GetNumberOfItems h (fst (AddNewNodeByClass h (mrmlScene w) ''vtkMRMLLabelMapVolumeNode'')) segSeq)"
  by (simp add: exportPngSequence_def state_before_item_def Let_def split: prod.splits)

lemma pngFiles_export_item_grows:
  "take (length (pngFiles w)) (pngFiles (export_item h img imgSeq seg segSeq lm folder base i w)) = pngFiles w"
  by (simp add: export_item_def Let_def pngFiles_write_pair logging_at_def split: option.splits)

lemma length_pngFiles_export_item:
  "length (pngFiles w) \<le> length (pngFiles (export_item h img imgSeq seg segSeq lm folder base i w))"
  by (simp add: export_item_def Let_def pngFiles_write_pair logging_at_def split: option.splits)

lemma pngFiles_state_before_item_kept:
  "take (length (pngFiles (state_before_item h w img imgSeq seg segSeq folder base i)))
        (pngFiles (state_before_item h w img imgSeq seg segSeq folder base (i + d)))
     = pngFiles (state_before_item h w img imgSeq seg segSeq folder base i)
   \<and> length (pngFiles (state_before_item h w img imgSeq seg segSeq folder base i))
       \<le> length (pngFiles (state_before_item h w img imgSeq seg segSeq folder base (i + d)))"
proof (induction d)
  case 0
  show ?case by simp
next
  case (Suc d)
  let ?b = "state_before_item h w img imgSeq seg segSeq folder base"
  let ?lm = "snd (AddNewNodeByClass h (mrmlScene w) ''vtkMRMLLabelMapVolumeNode'')"
  have step: "?b (i + Suc d) = export_item h img imgSeq seg segSeq ?lm folder base (i + d) (?b (i + d))"
    by (simp add: state_before_item_Suc)
  have le: "length (pngFiles (?b i)) \<le> length (pngFiles (?b (i + d)))"
    using Suc.IH by blast
  have g: "take (length (pngFiles (?b (i + d)))) (pngFiles (?b (i + Suc d))) = pngFiles (?b (i + d))"
    unfolding step by (rule pngFiles_export_item_grows)
  have "take (length (pngFiles (?b i))) (pngFiles (?b (i + Suc d)))
          = take (length (pngFiles (?b i))) (take (length (pngFiles (?b (i + d)))) (pngFiles (?b (i + Suc d))))"
    using le by (simp add: min_def)
  also have "\<dots> = pngFiles (?b i)"
    unfolding g using Suc.IH by blast
  finally have A: "take (length (pngFiles (?b i))) (pngFiles (?b (i + Suc d))) = pngFiles (?b i)" .
  have "length (pngFiles (?b (i + d))) \<le> length (pngFiles (?b (i + Suc d)))"
    unfolding step by (rule length_pngFiles_export_item)
  with le have B: "length (pngFiles (?b i)) \<le> length (pngFiles (?b (i + Suc d)))"
    by simp
  from A B show ?case by blast
qed

lemma pngFiles_state_before_item_prefix:
  assumes "i \<le> n"
  shows "take (length (pngFiles (state_before_item h w img imgSeq seg segSeq folder base i)))
              (pngFiles (state_before_item h w img imgSeq seg segSeq folder base n))
           = pngFiles (state_before_item h w img imgSeq seg segSeq folder base i)"
  using pngFiles_state_before_item_kept [of h w img imgSeq seg segSeq folder base i "n - i"] assms
  by simp

lemma export_item_files:
  "map fst (pngFiles (export_item h img imgSeq seg segSeq lm folder base i w)) =
     map fst (pngFiles w) @
       (if item_skipped h imgSeq seg w then []
        else [os_path_join h folder (base @ ''_'' @ format_04d i @ ''_segmentation.png''),
              os_path_join h folder (base @ ''_'' @ format_04d i @ ''_ultrasound.png'')])"
  by (simp add: export_item_def item_skipped_def Let_def pngFiles_write_pair logging_at_def
      segmentationFileName_def ultrasoundFileName_def split: option.splits)

lemma export_item_skipped_files:
  "item_skipped h imgSeq seg w \<Longrightarrow>
   pngFiles (export_item h img imgSeq seg segSeq lm folder base i w) = pngFiles w"
  by (simp add: export_item_def item_skipped_def Let_def logging_at_def split: option.splits)

lemma pngFiles_state_before_item_0:
  "pngFiles (state_before_item h w img imgSeq seg segSeq folder base 0) = pngFiles w"
  by (simp add: state_before_item_def Let_def split: prod.splits)

lemma state_before_item_files:
  "\<forall>i < n. \<not> item_skipped h imgSeq seg (state_before_item h w img imgSeq seg segSeq folder base i) \<Longrightarrow>
   map fst (pngFiles (state_before_item h w img imgSeq seg segSeq folder base n)) =
     map fst (pngFiles w) @
       concat (map (\<lambda>i. [os_path_join h folder (base @ ''_'' @ format_04d i @ ''_segmentation.png''),
                          os_path_join h folder (base @ ''_'' @ format_04d i @ ''_ultrasound.png'')])
                 [0..<n])"
proof (induction n)
  case 0
  show ?case by (simp add: pngFiles_state_before_item_0)
next
  case (Suc n)
  from Suc.prems have "\<forall>i < n. \<not> item_skipped h imgSeq seg (state_before_item h w img imgSeq seg segSeq folder base i)"
    by simp
  note IH = Suc.IH [OF this]
  from Suc.prems have "\<not> item_skipped h imgSeq seg (state_before_item h w img imgSeq seg segSeq folder base n)"
    by simp
  then show ?case
    by (simp add: state_before_item_Suc export_item_files IH)
qed

text \<open>
  C4, as amended. When the output folder exists, \<^verbatim>\<open>exportPngSequence\<close> ends in the state
  its loop reaches after the last item, and what pass \<open>i\<close> of the loop has written stays
  at the front of the files of the result. In pass \<open>i\<close>: when the current segmentation has
  the \<open>ORIGINAL_IMAGE_INDEX\<close> attribute, the attribute converts to an integer and the image
  sequence browser accepts that item number, the browser is repositioned to it before
  the pair is exported, and both files are rendered from the repositioned scene, so the
  ultrasound image written is the selected image as the host shows it after the
  repositioning; when the attribute is absent a warning is logged and the pair is
  rendered from the scene as it was, no call made on the image browser; and when there
  is no image browser, \<^verbatim>\<open>int\<close> rejects the string or the host call raises, the pass
  writes no file and logs the error: the item is skipped.
\<close>

theorem exportPngSequence_repositions:
  assumes "os_path_exists h folder"
      and "lm = snd (AddNewNodeByClass h (mrmlScene w0) ''vtkMRMLLabelMapVolumeNode'')"
      and "n = GetNumberOfItems h (fst (AddNewNodeByClass h (mrmlScene w0) ''vtkMRMLLabelMapVolumeNode'')) segSeq"
      and "before = state_before_item h w0 img imgSeq seg segSeq folder base"
      and "result = exportPngSequence h w0 img imgSeq seg segSeq folder base"
      and "i < n"
      and "a = GetAttribute (mrmlScene (before i)) seg ORIGINAL_IMAGE_INDEX"
  shows "result = before n
       \<and> take (length (pngFiles (before (Suc i)))) (pngFiles result) = pngFiles (before (Suc i))
       \<and> (a = None \<longrightarrow>
            pngFiles (before (Suc i))
              = pngFiles (before i) @ rendered_pair h img seg lm folder base i (mrmlScene (before i))
            \<and> logged (before (Suc i)) = logged (before i) @ [(WARNING,
                 ''Input image index attribute not found in segmentation. Input sequence will not be used.'')])
       \<and> (a = Some s \<and> imgSeq = Some b \<and> py_int h s = Some k
            \<and> SetSelectedItemNumber h (mrmlScene (before i)) b k = Some sc \<longrightarrow>
            pngFiles (before (Suc i)) = pngFiles (before i) @ rendered_pair h img seg lm folder base i sc
            \<and> logged (before (Suc i)) = logged (before i))
       \<and> (a = Some s \<and> (imgSeq = None \<or> py_int h s = None
              \<or> (\<exists>b k. imgSeq = Some b \<and> py_int h s = Some k
                         \<and> SetSelectedItemNumber h (mrmlScene (before i)) b k = None)) \<longrightarrow>
            pngFiles (before (Suc i)) = pngFiles (before i)
            \<and> logged (before (Suc i)) = logged (before i) @ [(ERROR,
                 ''Original image not found for segmentation '' @ str_nat i @ '' - skipping'')])"
proof (intro conjI)
  show run: "result = before n"
    unfolding assms(3,4,5) using assms(1) by (rule exportPngSequence_state_before_item)
  from assms(6) have "Suc i \<le> n" by simp
  then show "take (length (pngFiles (before (Suc i)))) (pngFiles result) = pngFiles (before (Suc i))"
    unfolding run unfolding assms(4) by (rule pngFiles_state_before_item_prefix)
  have step: "before (Suc i) = export_item h img imgSeq seg segSeq lm folder base i (before i)"
    by (simp add: assms(2,4) state_before_item_Suc)
  show "a = None \<longrightarrow>
            pngFiles (before (Suc i))
              = pngFiles (before i) @ rendered_pair h img seg lm folder base i (mrmlScene (before i))
            \<and> logged (before (Suc i)) = logged (before i) @ [(WARNING,
                 ''Input image index attribute not found in segmentation. Input sequence will not be used.'')]"
    unfolding step assms(7)
    by (auto simp add: export_item_def Let_def pngFiles_write_pair_rendered logged_write_pair logging_at_def)
  show "a = Some s \<and> imgSeq = Some b \<and> py_int h s = Some k
            \<and> SetSelectedItemNumber h (mrmlScene (before i)) b k = Some sc \<longrightarrow>
            pngFiles (before (Suc i)) = pngFiles (before i) @ rendered_pair h img seg lm folder base i sc
            \<and> logged (before (Suc i)) = logged (before i)"
    unfolding step assms(7)
    by (auto simp add: export_item_def Let_def pngFiles_write_pair_rendered logged_write_pair
        try_SetSelectedItemNumber_def)
  show "a = Some s \<and> (imgSeq = None \<or> py_int h s = None
              \<or> (\<exists>b k. imgSeq = Some b \<and> py_int h s = Some k
                         \<and> SetSelectedItemNumber h (mrmlScene (before i)) b k = None)) \<longrightarrow>
            pngFiles (before (Suc i)) = pngFiles (before i)
            \<and> logged (before (Suc i)) = logged (before i) @ [(ERROR,
                 ''Original image not found for segmentation '' @ str_nat i @ '' - skipping'')]"
    unfolding step assms(7)
    by (auto simp add: export_item_def Let_def try_SetSelectedItemNumber_def logging_at_def
        split: option.splits)
qed

theorem exportPngSequence_repositions_witness:
  "pngFiles (exportPngSequence demo_host export_world 4 (Some 1) 3 2 ''/out'' ''scan'')
     = [(''/out/scan_0000_segmentation.png'', [255, 255]), (''/out/scan_0000_ultrasound.png'', [30]),
        (''/out/scan_0001_segmentation.png'', [255, 255]), (''/out/scan_0001_ultrasound.png'', [20])]
   \<and> map (\<lambda>e. dn_attribute (snd e) ORIGINAL_IMAGE_INDEX) (indexEntries (nodes export_scene 5))
       = [Some ''2'', Some ''1'']
   \<and> map (\<lambda>e. dn_imageData (snd e)) (indexEntries (nodes export_scene 7)) = [[10], [20], [30]]"
proof -
  let ?before = "state_before_item demo_host export_world 4 (Some 1) 3 2 ''/out'' ''scan''"
  let ?lm = "snd (AddNewNodeByClass demo_host (mrmlScene export_world) ''vtkMRMLLabelMapVolumeNode'')"
  have ex: "os_path_exists demo_host ''/out''"
    by (simp add: demo_host_def)
  have n: "GetNumberOfItems demo_host
             (fst (AddNewNodeByClass demo_host (mrmlScene export_world) ''vtkMRMLLabelMapVolumeNode'')) 2 = 2"
    by code_simp
  have lt: "1 < GetNumberOfItems demo_host
             (fst (AddNewNodeByClass demo_host (mrmlScene export_world) ''vtkMRMLLabelMapVolumeNode'')) 2"
    unfolding n by simp
  have a: "GetAttribute (mrmlScene (?before 1)) 3 ORIGINAL_IMAGE_INDEX = Some ''1''"
          "py_int demo_host ''1'' = Some 1"
    by code_simp+
  have sel: "SetSelectedItemNumber demo_host (mrmlScene (?before 1)) 1 1
               = Some (demo_select (mrmlScene (?before 1)) 1 1)"
    by (simp add: demo_host_def)
  note pass = exportPngSequence_repositions [OF ex refl refl refl refl lt refl,
         where img = 4 and imgSeq = "Some 1" and seg = 3 and base = "''scan''"
           and s = "''1''" and b = 1 and k = 1 and sc = "demo_select (mrmlScene (?before 1)) 1 1"]
  from pass have run: "exportPngSequence demo_host export_world 4 (Some 1) 3 2 ''/out'' ''scan''
      = ?before (GetNumberOfItems demo_host
             (fst (AddNewNodeByClass demo_host (mrmlScene export_world) ''vtkMRMLLabelMapVolumeNode'')) 2)"
    by blast
  from pass a sel
  have "pngFiles (?before (Suc 1))
          = pngFiles (?before 1) @ rendered_pair demo_host 4 3 ?lm ''/out'' ''scan'' 1
              (demo_select (mrmlScene (?before 1)) 1 1)"
    by simp
  also have "\<dots> = [(''/out/scan_0000_segmentation.png'', [255, 255]), (''/out/scan_0000_ultrasound.png'', [30]),
        (''/out/scan_0001_segmentation.png'', [255, 255]), (''/out/scan_0001_ultrasound.png'', [20])]"
    by code_simp
  finally have files: "pngFiles (exportPngSequence demo_host export_world 4 (Some 1) 3 2 ''/out'' ''scan'')
     = [(''/out/scan_0000_segmentation.png'', [255, 255]), (''/out/scan_0000_ultrasound.png'', [30]),
        (''/out/scan_0001_segmentation.png'', [255, 255]), (''/out/scan_0001_ultrasound.png'', [20])]"
    unfolding run n by (simp add: numeral_2_eq_2)
  have "map (\<lambda>e. dn_attribute (snd e) ORIGINAL_IMAGE_INDEX) (indexEntries (nodes export_scene 5))
       = [Some ''2'', Some ''1'']"
       "map (\<lambda>e. dn_imageData (snd e)) (indexEntries (nodes export_scene 7)) = [[10], [20], [30]]"
    by code_simp+
  with files show ?thesis by simp
qed

text \<open>
  C4 as stated fails for an index that selects no frame: the segmentation carries the
  string 99 while the image sequence has three frames. The browser accepts the item
  number, so the item is not skipped: the pair is exported, with the image the volume
  showed before, and nothing is logged.
\<close>

theorem exportPngSequence_out_of_range_counterexample:
  "GetAttribute (mrmlScene out_of_range_world) 3 ORIGINAL_IMAGE_INDEX = Some ''99''
   \<and> length (indexEntries (nodes (mrmlScene out_of_range_world) 7)) = 3
   \<and> imageData (nodes (mrmlScene out_of_range_world) 4) = [10]
   \<and> pngFiles (exportPngSequence demo_host out_of_range_world 4 (Some 1) 3 2 ''/out'' ''scan'')
       = [(''/out/scan_0000_segmentation.png'', [255, 255]), (''/out/scan_0000_ultrasound.png'', [10])]
   \<and> logged (exportPngSequence demo_host out_of_range_world 4 (Some 1) 3 2 ''/out'' ''scan'') = []"
  by code_simp

text \<open>
  C5, as amended. When the output folder exists, \<^verbatim>\<open>exportPngSequence\<close> runs one pass for
  every item \<open>i\<close> with \<open>0 \<le> i <\<close> the number of items of the segmentation sequence browser,
  starting from the files already there. A pass is skipped when, as it starts, the
  segmentation has the \<open>ORIGINAL_IMAGE_INDEX\<close> attribute and the guarded repositioning of
  the image browser fails. For every item \<open>i\<close> such that neither its pass nor an earlier
  one is skipped, the pass writes exactly two PNG files, joined to the output folder
  and named \<open>baseName_NNNN_segmentation.png\<close> and \<open>baseName_NNNN_ultrasound.png\<close> with
  \<open>NNNN\<close> the \<^verbatim>\<open>%04d\<close> rendering of \<open>i\<close>, and they stay among the files of the result;
  the first pass that is skipped writes no file; and when no pass is skipped the files
  written are these pairs for \<open>i = 0, \<dots>, n - 1\<close> in this order and nothing else. When
  the output folder does not exist the only effect is one error record, and no file is
  written.
\<close>

theorem exportPngSequence_files:
  assumes "n = GetNumberOfItems h (fst (AddNewNodeByClass h (mrmlScene w) ''vtkMRMLLabelMapVolumeNode'')) segSeq"
      and "before = state_before_item h w img imgSeq seg segSeq folder base"
      and "result = exportPngSequence h w img imgSeq seg segSeq folder base"
  shows "(os_path_exists h folder \<longrightarrow>
            result = before n
            \<and> pngFiles (before 0) = pngFiles w
            \<and> (\<forall>i < n. (\<forall>j \<le> i. \<not> item_skipped h imgSeq seg (before j)) \<longrightarrow>
                  map fst (pngFiles (before (Suc i))) = map fst (pngFiles (before i)) @
                    [os_path_join h folder (base @ ''_'' @ format_04d i @ ''_segmentation.png''),
                     os_path_join h folder (base @ ''_'' @ format_04d i @ ''_ultrasound.png'')]
                  \<and> take (length (pngFiles (before (Suc i)))) (pngFiles result) = pngFiles (before (Suc i)))
            \<and> (\<forall>i < n. (\<forall>j < i. \<not> item_skipped h imgSeq seg (before j))
                        \<and> item_skipped h imgSeq seg (before i) \<longrightarrow>
                  pngFiles (before (Suc i)) = pngFiles (before i))
            \<and> ((\<forall>i < n. \<not> item_skipped h imgSeq seg (before i)) \<longrightarrow>
                  map fst (pngFiles result) = map fst (pngFiles w) @
                    concat (map (\<lambda>i. [os_path_join h folder (base @ ''_'' @ format_04d i @ ''_segmentation.png''),
                                       os_path_join h folder (base @ ''_'' @ format_04d i @ ''_ultrasound.png'')])
                              [0..<n])))
       \<and> (\<not> os_path_exists h folder \<longrightarrow>
            result = logging_at ERROR (''Export folder does not exist '' @ folder) w
            \<and> pngFiles result = pngFiles w)"
proof (intro conjI impI allI)
  assume ex: "os_path_exists h folder"
  show run: "result = before n"
    unfolding assms using ex by (rule exportPngSequence_state_before_item)
  show "pngFiles (before 0) = pngFiles w"
    by (simp add: assms(2) pngFiles_state_before_item_0)
  {
    fix i
    assume "i < n" and ok: "\<forall>j \<le> i. \<not> item_skipped h imgSeq seg (before j)"
    from ok have "\<not> item_skipped h imgSeq seg (before i)"
      by simp
    then show "map fst (pngFiles (before (Suc i))) = map fst (pngFiles (before i)) @
                    [os_path_join h folder (base @ ''_'' @ format_04d i @ ''_segmentation.png''),
                     os_path_join h folder (base @ ''_'' @ format_04d i @ ''_ultrasound.png'')]"
      by (simp add: assms(2) state_before_item_Suc export_item_files)
    from \<open>i < n\<close> have "Suc i \<le> n" by simp
    then show "take (length (pngFiles (before (Suc i)))) (pngFiles result) = pngFiles (before (Suc i))"
      unfolding run unfolding assms(2) by (rule pngFiles_state_before_item_prefix)
  }
  {
    fix i
    assume "i < n" and "(\<forall>j < i. \<not> item_skipped h imgSeq seg (before j))
                        \<and> item_skipped h imgSeq seg (before i)"
    then have "item_skipped h imgSeq seg (before i)" by blast
    then show "pngFiles (before (Suc i)) = pngFiles (before i)"
      by (simp add: assms(2) state_before_item_Suc export_item_skipped_files)
  }
  {
    assume "\<forall>i < n. \<not> item_skipped h imgSeq seg (before i)"
    then show "map fst (pngFiles result) = map fst (pngFiles w) @
                    concat (map (\<lambda>i. [os_path_join h folder (base @ ''_'' @ format_04d i @ ''_segmentation.png''),
                                       os_path_join h folder (base @ ''_'' @ format_04d i @ ''_ultrasound.png'')])
                              [0..<n])"
      unfolding run unfolding assms(2) by (rule state_before_item_files)
  }
next
  assume "\<not> os_path_exists h folder"
  then show "result = logging_at ERROR (''Export folder does not exist '' @ folder) w"
    by (simp add: assms(3) exportPngSequence_def)
  then show "pngFiles result = pngFiles w"
    by (simp add: logging_at_def)
qed

theorem exportPngSequence_files_witness:
  "map fst (pngFiles (exportPngSequence demo_host export_world 4 (Some 1) 3 2 ''/out'' ''scan''))
     = [''/out/scan_0000_segmentation.png'', ''/out/scan_0000_ultrasound.png'',
        ''/out/scan_0001_segmentation.png'', ''/out/scan_0001_ultrasound.png'']
   \<and> pngFiles (exportPngSequence demo_host export_world 4 (Some 1) 3 2 ''/nowhere'' ''scan'') = []"
proof -
  let ?before = "state_before_item demo_host export_world 4 (Some 1) 3 2 ''/out'' ''scan''"
  have ex: "os_path_exists demo_host ''/out''" "\<not> os_path_exists demo_host ''/nowhere''"
    by (simp_all add: demo_host_def)
  have n: "GetNumberOfItems demo_host
             (fst (AddNewNodeByClass demo_host (mrmlScene export_world) ''vtkMRMLLabelMapVolumeNode'')) 2 = 2"
    by code_simp
  have "\<not> item_skipped demo_host (Some 1) 3 (?before 0)" "\<not> item_skipped demo_host (Some 1) 3 (?before 1)"
    by code_simp+
  then have ok: "\<forall>i < 2. \<not> item_skipped demo_host (Some 1) 3 (?before i)"
    by (simp add: less_2_cases_iff)
  from exportPngSequence_files [OF refl refl refl, where h = demo_host and w = export_world and img = 4
         and imgSeq = "Some 1" and seg = 3 and segSeq = 2 and folder = "''/out''" and base = "''scan''"]
       ex(1) ok
  have "map fst (pngFiles (exportPngSequence demo_host export_world 4 (Some 1) 3 2 ''/out'' ''scan'')) =
      map fst (pngFiles export_world) @
        concat (map (\<lambda>i. [os_path_join demo_host ''/out'' (''scan'' @ ''_'' @ format_04d i @ ''_segmentation.png''),
                           os_path_join demo_host ''/out'' (''scan'' @ ''_'' @ format_04d i @ ''_ultrasound.png'')])
                  [0..<2])"
    unfolding n by blast
  also have "\<dots> = [''/out/scan_0000_segmentation.png'', ''/out/scan_0000_ultrasound.png'',
        ''/out/scan_0001_segmentation.png'', ''/out/scan_0001_ultrasound.png'']"
    by code_simp
  finally have A: "map fst (pngFiles (exportPngSequence demo_host export_world 4 (Some 1) 3 2 ''/out'' ''scan''))
     = [''/out/scan_0000_segmentation.png'', ''/out/scan_0000_ultrasound.png'',
        ''/out/scan_0001_segmentation.png'', ''/out/scan_0001_ultrasound.png'']" .
  from exportPngSequence_files [OF refl refl refl, where h = demo_host and w = export_world and img = 4
         and imgSeq = "Some 1" and seg = 3 and segSeq = 2 and folder = "''/nowhere''" and base = "''scan''"]
       ex(2)
  have "pngFiles (exportPngSequence demo_host export_world 4 (Some 1) 3 2 ''/nowhere'' ''scan'')
          = pngFiles export_world"
    by blast
  then have B: "pngFiles (exportPngSequence demo_host export_world 4 (Some 1) 3 2 ''/nowhere'' ''scan'') = []"
    by (simp add: export_world_def demo_world_def)
  from A B show ?thesis by simp
qed

text \<open>
  C5 as stated fails when an item is skipped: with the output folder present and one
  item whose segmentation carries the attribute string \<open>None\<close>, no file is written.
\<close>

theorem exportPngSequence_counterexample:
  "os_path_exists demo_host ''/out''
   \<and> GetNumberOfItems demo_host
        (fst (AddNewNodeByClass demo_host (mrmlScene unusable_index_world) ''vtkMRMLLabelMapVolumeNode'')) 2 = 1
   \<and> GetAttribute (mrmlScene unusable_index_world) 3 ORIGINAL_IMAGE_INDEX = Some ''None''
   \<and> pngFiles (exportPngSequence demo_host unusable_index_world 4 (Some 1) 3 2 ''/out'' ''scan'') = []
   \<and> logged (exportPngSequence demo_host unusable_index_world 4 (Some 1) 3 2 ''/out'' ''scan'')
       = [(ERROR, ''Original image not found for segmentation 0 - skipping'')]"
  by code_simp

text \<open>
  C6 at its failing input. With the segmentation, the segmentation sequence browser and
  the image selected but no image sequence browser, \<^verbatim>\<open>onExportButton\<close> logs no error for
  the missing browser and runs the export, which here writes two files.
\<close>

theorem onExportButton_null_image_browser:
  "inputSequenceBrowserSelector (widgets no_image_browser_world) = None
   \<and> raised_error (onExportButton demo_host no_image_browser_world) = None
   \<and> logged (world_of (onExportButton demo_host no_image_browser_world))
       = [(WARNING, ''Input image index attribute not found in segmentation. Input sequence will not be used.'')]
   \<and> pngFiles (world_of (onExportButton demo_host no_image_browser_world))
       = [(''/out/scan_0000_segmentation.png'', [255, 255]), (''/out/scan_0000_ultrasound.png'', [10])]"
  by code_simp

end
